theory Spec2Isabelle
  imports Complex_Main
begin

section \<open>The number type of the source language\<close>

text \<open>
  Every amount and every factor of the program is a TypeScript \<open>number\<close>: an IEEE 754
  binary64 value. A finite value is modelled by the real number it denotes, the three
  special values by constructors. The two zeros are identified: the program never
  divides by a value that can be a zero and never prints a zero's sign, and
  \<open>-0 === 0\<close>, \<open>-0 < 0 = false\<close> and \<open>(-0).toString() = "0"\<close> agree with \<open>+0\<close>.
  An arithmetic operation computes the exact real result and rounds it to the
  nearest binary64 value, ties to even (\<open>round_double\<close>).
\<close>

datatype number = Fin real | PInf | NInf | NaN

text \<open>\<open>ipow b e\<close> is \<open>b\<close> to the power \<open>e\<close>, for an exponent of either sign.\<close>

definition ipow :: "int \<Rightarrow> int \<Rightarrow> real" where
  "ipow b e = (if 0 \<le> e then of_int b ^ nat e else 1 / of_int b ^ nat (- e))"

text \<open>The number of digits of \<open>n\<close> in base \<open>b\<close> (\<open>0\<close> for \<open>n \<le> 0\<close>).\<close>

function digits :: "int \<Rightarrow> int \<Rightarrow> int" where
  "digits b n = (if n \<le> 0 \<or> b < 2 then 0 else 1 + digits b (n div b))"
  by pat_completeness auto
termination
  by (relation "measure (\<lambda>(b, n). nat n)") (auto simp: int_div_less_self)

text \<open>
  \<open>floor_log b x\<close> is the integer \<open>e\<close> with \<open>b ^ e \<le> x < b ^ (e + 1)\<close>, for \<open>x > 0\<close>:
  one less than the number of digits of \<open>\<lfloor>x\<rfloor>\<close> when \<open>x \<ge> 1\<close>; otherwise \<open>- e\<close> for the
  least \<open>e\<close> with \<open>b ^ e \<ge> 1 / x\<close>, which is the number of digits of \<open>\<lceil>1 / x\<rceil> - 1\<close>.
\<close>

definition floor_log :: "int \<Rightarrow> real \<Rightarrow> int" where
  "floor_log b x =
     (if 1 \<le> x then digits b \<lfloor>x\<rfloor> - 1 else - digits b (\<lceil>1 / x\<rceil> - 1))"

text \<open>Rounding to the nearest integer, a tie going to the even neighbour.\<close>

definition rne :: "real \<Rightarrow> int" where
  "rne x =
     (if x - of_int \<lfloor>x\<rfloor> < 1 / 2 then \<lfloor>x\<rfloor>
      else if 1 / 2 < x - of_int \<lfloor>x\<rfloor> then \<lfloor>x\<rfloor> + 1
      else if even \<lfloor>x\<rfloor> then \<lfloor>x\<rfloor> else \<lfloor>x\<rfloor> + 1)"

text \<open>
  binary64 has 53 significant bits. For \<open>2 ^ e \<le> \<bar>x\<bar> < 2 ^ (e + 1)\<close> the representable
  values around \<open>\<bar>x\<bar>\<close> are the multiples \<open>m * 2 ^ (e - 52)\<close> with
  \<open>2 ^ 52 \<le> m \<le> 2 ^ 53\<close>; the exponent \<open>e\<close> is at least \<open>-1022\<close> (below it the values
  are subnormal, spaced \<open>2 ^ -1074\<close> apart). The rounded magnitude reaches \<open>2 ^ 1024\<close>,
  and the result is an infinity, exactly when \<open>e > 1023\<close>, or \<open>e = 1023\<close> and \<open>m = 2 ^ 53\<close>.
\<close>

definition of_parts :: "real \<Rightarrow> int \<Rightarrow> int \<Rightarrow> number" where
  "of_parts x e m =
     (if 1023 < e \<or> (e = 1023 \<and> m = 2 ^ 53) then (if 0 < x then PInf else NInf)
      else Fin ((if 0 < x then 1 else - 1) * of_int m * ipow 2 (e - 52)))"

definition round_at :: "real \<Rightarrow> int \<Rightarrow> number" where
  "round_at x e = of_parts x e (rne (\<bar>x\<bar> / ipow 2 (e - 52)))"

definition round_double :: "real \<Rightarrow> number" where
  "round_double x =
     (if x = 0 then Fin 0 else round_at x (max (floor_log 2 \<bar>x\<bar>) (- 1022)))"

text \<open>A decimal literal of the source denotes the binary64 value nearest to it.\<close>

definition lit :: "real \<Rightarrow> number" where
  "lit x = round_double x"

fun js_neg :: "number \<Rightarrow> number" where
  "js_neg (Fin a) = Fin (- a)"
| "js_neg PInf = NInf"
| "js_neg NInf = PInf"
| "js_neg NaN = NaN"

fun js_add :: "number \<Rightarrow> number \<Rightarrow> number" where
  "js_add (Fin a) (Fin b) = round_double (a + b)"
| "js_add NaN _ = NaN"
| "js_add _ NaN = NaN"
| "js_add PInf NInf = NaN"
| "js_add NInf PInf = NaN"
| "js_add PInf _ = PInf"
| "js_add _ PInf = PInf"
| "js_add NInf _ = NInf"
| "js_add _ NInf = NInf"

definition js_sub :: "number \<Rightarrow> number \<Rightarrow> number" where
  "js_sub a b = js_add a (js_neg b)"

text \<open>The sign of a number: \<open>1\<close>, \<open>0\<close> or \<open>-1\<close> (\<open>NaN\<close> has none).\<close>

fun js_sign :: "number \<Rightarrow> int" where
  "js_sign (Fin a) = (if 0 < a then 1 else if a < 0 then - 1 else 0)"
| "js_sign PInf = 1"
| "js_sign NInf = - 1"
| "js_sign NaN = 0"

fun js_mul :: "number \<Rightarrow> number \<Rightarrow> number" where
  "js_mul (Fin a) (Fin b) = round_double (a * b)"
| "js_mul NaN _ = NaN"
| "js_mul _ NaN = NaN"
| "js_mul a b =
     (let s = js_sign a * js_sign b
      in if s = 0 then NaN else if 0 < s then PInf else NInf)"

text \<open>
  Division. The program divides by the literal \<open>100\<close> and by divisors it has checked
  to be positive; a zero divisor is read as \<open>+0\<close>.
\<close>

fun js_div :: "number \<Rightarrow> number \<Rightarrow> number" where
  "js_div (Fin a) (Fin b) =
     (if b = 0 then (if a = 0 then NaN else if 0 < a then PInf else NInf)
      else round_double (a / b))"
| "js_div NaN _ = NaN"
| "js_div _ NaN = NaN"
| "js_div (Fin a) _ = Fin 0"
| "js_div a (Fin b) = (if 0 \<le> b then a else js_neg a)"
| "js_div _ _ = NaN"

text \<open>\<open>Math.round\<close>: the integer nearest to the argument, a tie going up.\<close>

fun Math_round :: "number \<Rightarrow> number" where
  "Math_round (Fin a) = Fin (of_int \<lfloor>a + 1 / 2\<rfloor>)"
| "Math_round x = x"

fun js_lt :: "number \<Rightarrow> number \<Rightarrow> bool" where
  "js_lt NaN _ = False"
| "js_lt _ NaN = False"
| "js_lt (Fin a) (Fin b) = (a < b)"
| "js_lt _ NInf = False"
| "js_lt NInf _ = True"
| "js_lt PInf _ = False"
| "js_lt _ PInf = True"

definition js_gt :: "number \<Rightarrow> number \<Rightarrow> bool" where
  "js_gt a b = js_lt b a"

text \<open>Strict equality \<open>===\<close> on numbers: \<open>NaN\<close> equals nothing.\<close>

definition js_eq :: "number \<Rightarrow> number \<Rightarrow> bool" where
  "js_eq a b = (a \<noteq> NaN \<and> a = b)"

definition js_le :: "number \<Rightarrow> number \<Rightarrow> bool" where
  "js_le a b = (js_lt a b \<or> js_eq a b)"

definition js_ge :: "number \<Rightarrow> number \<Rightarrow> bool" where
  "js_ge a b = js_le b a"

fun Number_isFinite :: "number \<Rightarrow> bool" where
  "Number_isFinite (Fin a) = True"
| "Number_isFinite _ = False"

fun Number_isInteger :: "number \<Rightarrow> bool" where
  "Number_isInteger (Fin a) = (of_int \<lfloor>a\<rfloor> = a)"
| "Number_isInteger _ = False"

subsection \<open>Number.prototype.toString and the digits after the point\<close>

text \<open>
  \<open>toString\<close> prints the shortest decimal that reads back as the same value
  (ECMAScript, Number::toString): integers \<open>k \<ge> 1\<close>, \<open>n\<close> and \<open>s\<close> with
  \<open>10 ^ (k - 1) \<le> s < 10 ^ k\<close> such that \<open>s * 10 ^ (n - k)\<close> rounds to the value, \<open>k\<close> as
  small as possible. \<open>digits_at k x\<close> looks for such an \<open>n\<close> at a given \<open>k\<close>: rounding
  is monotone, so only the two integers around \<open>x / 10 ^ (n - k)\<close> need to be tried, and
  \<open>n\<close> is the decimal exponent of \<open>x\<close> or one more.
\<close>

definition digits_ok :: "int \<Rightarrow> real \<Rightarrow> int \<Rightarrow> int \<Rightarrow> bool" where
  "digits_ok k x n s =
     (ipow 10 (k - 1) \<le> of_int s \<and> of_int s < ipow 10 k
      \<and> round_double (of_int s * ipow 10 (n - k)) = Fin x)"

definition digits_try :: "int \<Rightarrow> real \<Rightarrow> int \<Rightarrow> bool" where
  "digits_try k x n =
     (digits_ok k x n \<lfloor>x / ipow 10 (n - k)\<rfloor> \<or> digits_ok k x n \<lceil>x / ipow 10 (n - k)\<rceil>)"

definition digits_at :: "int \<Rightarrow> real \<Rightarrow> int option" where
  "digits_at k x =
     (if digits_try k x (floor_log 10 x + 1) then Some (floor_log 10 x + 1)
      else if digits_try k x (floor_log 10 x + 2) then Some (floor_log 10 x + 2)
      else None)"

text \<open>
  The search for the least \<open>k\<close>, from \<open>k\<close> upwards. Seventeen digits identify every
  binary64 value, so the search ends by \<open>k = 17\<close>; the bound only makes it total.
\<close>

function shortest :: "int \<Rightarrow> real \<Rightarrow> int \<times> int" where
  "shortest k x =
     (if 17 < k then (k, floor_log 10 x + 1)
      else case digits_at k x of
             Some n \<Rightarrow> (k, n)
           | None \<Rightarrow> shortest (k + 1) x)"
  by pat_completeness auto
termination
  by (relation "measure (\<lambda>(k, x). nat (18 - k))") auto

text \<open>
  The number of characters after the point of \<open>x.toString()\<close>, that is the length of
  \<open>x.toString().split('.')[1] || ''\<close>. With \<open>-5 \<le> n \<le> 21\<close> the string is in
  positional notation: no point when \<open>n \<ge> k\<close>, otherwise \<open>k - n\<close> characters after it.
  Outside that range it is in exponent notation: a single digit has no point, otherwise
  the point is followed by \<open>k - 1\<close> digits, the letter \<open>e\<close>, a sign and the digits of
  \<open>\<bar>n - 1\<bar>\<close>.
\<close>

fun places :: "int \<times> int \<Rightarrow> nat" where
  "places (k, n) =
     (if - 5 \<le> n \<and> n \<le> 21 then (if k \<le> n then 0 else nat (k - n))
      else if k = 1 then 0
      else nat ((k - 1) + 2 + digits 10 \<bar>n - 1\<bar>))"

fun decimalPlaces :: "number \<Rightarrow> nat" where
  "decimalPlaces (Fin a) = (if a = 0 then 0 else places (shortest 1 \<bar>a\<bar>))"
| "decimalPlaces _ = 0"

section \<open>Errors\<close>

text \<open>
  Every \<open>throw new Error(message)\<close> of the modelled code is a constructor of \<open>error\<close>,
  one per message. \<open>TypeError\<close> is the runtime's own error (reading a property of
  \<open>undefined\<close>). \<open>InventoryValidationFailed\<close> carries the lines of its message, one
  pair of product name and reason per failing item; \<open>InventoryReservationFailed\<close>
  wraps the message of the error it was built from; \<open>External\<close> is an error raised by
  a collaborator outside the modelled code (a repository, the event bus).
\<close>

datatype reason =
    ProductNotFound
  | ProductOffShelf
  | InsufficientStock int int

datatype error =
    TypeError
  | AmountNegative
  | AmountNotFinite
  | AmountPrecision
  | CurrencyMismatch
  | ResultNegative
  | FactorNegative
  | DivisorNotPositive
  | CompareCurrencyMismatch
  | ProductIdEmpty
  | ProductNameEmpty
  | SkuEmpty
  | QuantityNotPositive
  | QuantityNotInteger
  | ItemTotalMismatch
  | CustomerIdEmpty
  | OrderWithoutItems
  | OrderItemsEmpty
  | SubtotalMismatch
  | TotalMismatch
  | PaymentStatusInconsistent
  | ShippingStatusInconsistent
  | OnlyPendingCanPay
  | PaymentStatusAbnormal
  | OnlyPaidCanProcess
  | OnlyProcessingCanShip
  | OnlyShippedCanDeliver
  | OnlyDeliveredCanComplete
  | ShippedCannotCancel
  | OnlyCompletedPaymentCanRefund
  | StockNegative
  | ReservedNegative
  | MinStockLevelNegative
  | ReservedExceedsStock
  | ReserveNotPositive
  | StockInsufficient
  | ReleaseNotPositive
  | ReleaseExceedsReserved
  | DeductNotPositive
  | DeductExceedsReserved
  | AddStockNotPositive
  | OnlyActiveCanReserve
  | NoStockCannotActivate
  | InventoryValidationFailed "(string \<times> reason) list"
  | ProductMissing string
  | InventoryReservationFailed error
  | CartNotFound
  | CartEmpty
  | External string

text \<open>Sequencing of steps that can throw: the first error ends the sequence.\<close>

definition bindE :: "error + 'a \<Rightarrow> ('a \<Rightarrow> error + 'b) \<Rightarrow> error + 'b" where
  "bindE x f = (case x of Inl e \<Rightarrow> Inl e | Inr v \<Rightarrow> f v)"

section \<open>Money\<close>

datatype Currency = CNY | USD | EUR

record Money =
  amount :: number
  currency :: Currency

text \<open>
  \<open>Money.validate\<close>, in the order of its checks: negative, not finite, more than two
  characters after the point of \<open>amount.toString()\<close>. Its last check, that the currency
  is one of the enumeration's values, cannot fail on the type \<open>Currency\<close>.
\<close>

definition Money_validate :: "Money \<Rightarrow> error option" where
  "Money_validate m =
     (if js_lt (amount m) (Fin 0) then Some AmountNegative
      else if \<not> Number_isFinite (amount m) then Some AmountNotFinite
      else if 2 < decimalPlaces (amount m) then Some AmountPrecision
      else None)"

text \<open>The constructor \<open>new Money(amount, currency)\<close>.\<close>

definition Money_new :: "number \<Rightarrow> Currency \<Rightarrow> error + Money" where
  "Money_new a c =
     (let m = \<lparr>amount = a, currency = c\<rparr>
      in case Money_validate m of Some e \<Rightarrow> Inl e | None \<Rightarrow> Inr m)"

definition Money_zero :: "Currency \<Rightarrow> error + Money" where
  "Money_zero c = Money_new (Fin 0) c"

definition Money_add :: "Money \<Rightarrow> Money \<Rightarrow> error + Money" where
  "Money_add a b =
     (if currency a \<noteq> currency b then Inl CurrencyMismatch
      else Money_new (js_add (amount a) (amount b)) (currency a))"

definition Money_subtract :: "Money \<Rightarrow> Money \<Rightarrow> error + Money" where
  "Money_subtract a b =
     (if currency a \<noteq> currency b then Inl CurrencyMismatch
      else let result = js_sub (amount a) (amount b)
           in if js_lt result (Fin 0) then Inl ResultNegative
              else Money_new result (currency a))"

definition Money_multiply :: "Money \<Rightarrow> number \<Rightarrow> error + Money" where
  "Money_multiply a factor =
     (if js_lt factor (Fin 0) then Inl FactorNegative
      else Money_new
             (js_div (Math_round (js_mul (js_mul (amount a) factor) (Fin 100))) (Fin 100))
             (currency a))"

definition Money_divide :: "Money \<Rightarrow> number \<Rightarrow> error + Money" where
  "Money_divide a divisor =
     (if js_le divisor (Fin 0) then Inl DivisorNotPositive
      else Money_new
             (js_div (Math_round (js_mul (js_div (amount a) divisor) (Fin 100))) (Fin 100))
             (currency a))"

definition Money_equals :: "Money \<Rightarrow> Money \<Rightarrow> bool" where
  "Money_equals a b = (js_eq (amount a) (amount b) \<and> currency a = currency b)"

definition Money_isGreaterThan :: "Money \<Rightarrow> Money \<Rightarrow> error + bool" where
  "Money_isGreaterThan a b =
     (if currency a \<noteq> currency b then Inl CompareCurrencyMismatch
      else Inr (js_gt (amount a) (amount b)))"

definition Money_isLessThan :: "Money \<Rightarrow> Money \<Rightarrow> error + bool" where
  "Money_isLessThan a b =
     (if currency a \<noteq> currency b then Inl CompareCurrencyMismatch
      else Inr (js_lt (amount a) (amount b)))"


section \<open>Order items\<close>

text \<open>
  \<open>String.prototype.trim\<close> removes the white space at both ends; on the byte strings of the
  model that is the space and the control characters \<open>0x09\<close> to \<open>0x0D\<close>.
\<close>

definition is_space :: "char \<Rightarrow> bool" where
  "is_space c = (c = CHR '' '' \<or> c \<in> set [CHR 0x09, CHR 0x0A, CHR 0x0B, CHR 0x0C, CHR 0x0D])"

definition trim :: "string \<Rightarrow> string" where
  "trim s = rev (dropWhile is_space (rev (dropWhile is_space s)))"

record ProductSnapshot =
  snapshotName :: string
  snapshotDescription :: string
  imageUrl :: string

text \<open>
  The properties of an \<open>OrderItem\<close>. Its entity identifier, made from the clock and a
  random number, takes part in no check and is left out.
\<close>

record OrderItem =
  productId :: string
  productName :: string
  sku :: string
  quantity :: number
  unitPrice :: Money
  totalPrice :: Money
  itemDiscountAmount :: Money
  productSnapshot :: ProductSnapshot

text \<open>\<open>OrderItem.validate\<close>: the total must be \<open>unitPrice * quantity - discount\<close>.\<close>

definition OrderItem_validate :: "OrderItem \<Rightarrow> error + unit" where
  "OrderItem_validate i =
     (if productId i = [] then Inl ProductIdEmpty
      else if productName i = [] \<or> length (trim (productName i)) = 0 then Inl ProductNameEmpty
      else if sku i = [] \<or> length (trim (sku i)) = 0 then Inl SkuEmpty
      else if js_le (quantity i) (Fin 0) then Inl QuantityNotPositive
      else if \<not> Number_isInteger (quantity i) then Inl QuantityNotInteger
      else bindE (Money_multiply (unitPrice i) (quantity i)) (\<lambda>gross.
           bindE (Money_subtract gross (itemDiscountAmount i)) (\<lambda>expectedTotal.
           if \<not> Money_equals (totalPrice i) expectedTotal then Inl ItemTotalMismatch
           else Inr ())))"

definition OrderItem_new :: "OrderItem \<Rightarrow> error + OrderItem" where
  "OrderItem_new i = bindE (OrderItem_validate i) (\<lambda>_. Inr i)"

text \<open>
  \<open>OrderItem.create\<close>; an absent \<open>discountAmount\<close> (\<open>None\<close>) defaults to zero in the
  currency of the unit price.
\<close>

definition OrderItem_create ::
  "string \<Rightarrow> string \<Rightarrow> string \<Rightarrow> number \<Rightarrow> Money \<Rightarrow> Money option \<Rightarrow> ProductSnapshot
     \<Rightarrow> error + OrderItem" where
  "OrderItem_create pid name code qty price discountOpt snapshot =
     bindE (case discountOpt of
              None \<Rightarrow> Money_zero (currency price)
            | Some d \<Rightarrow> Inr d) (\<lambda>discount.
     bindE (Money_multiply price qty) (\<lambda>gross.
     bindE (Money_subtract gross discount) (\<lambda>total.
     OrderItem_new
       \<lparr>productId = pid, productName = trim name, sku = trim code, quantity = qty,
        unitPrice = price, totalPrice = total, itemDiscountAmount = discount,
        productSnapshot = snapshot\<rparr>)))"

section \<open>The Order aggregate\<close>

datatype OrderStatus =
    OS_PENDING | OS_PAID | OS_PROCESSING | OS_SHIPPED | OS_DELIVERED
  | OS_CANCELLED | OS_REFUNDED | OS_COMPLETED

datatype PaymentStatus =
    PS_PENDING | PS_PROCESSING | PS_COMPLETED | PS_FAILED | PS_CANCELLED | PS_REFUNDED

datatype ShippingStatus =
    SS_PENDING | SS_PREPARING | SS_SHIPPED | SS_IN_TRANSIT | SS_DELIVERED | SS_EXCEPTION

datatype PaymentMethod = ALIPAY | WECHAT_PAY | BANK_CARD | CREDIT_CARD | CASH_ON_DELIVERY

text \<open>An \<open>Address\<close> value; only its province is read by the modelled code.\<close>

record Address =
  country :: string
  province :: string
  city :: string
  district :: string
  street :: string
  zipCode :: string
  contactName :: string
  contactPhone :: string

record OrderMetadata =
  couponCode :: "string option"
  promotionId :: "string option"
  channel :: string
  userAgent :: "string option"
  ipAddress :: "string option"

text \<open>The fields a caller of \<open>Order.create\<close> may give in \<open>Partial<OrderMetadata>\<close>.\<close>

record PartialMetadata =
  p_couponCode :: "string option"
  p_promotionId :: "string option"
  p_channel :: "string option"
  p_userAgent :: "string option"
  p_ipAddress :: "string option"

text \<open>A \<open>Date\<close> is its time value in milliseconds.\<close>

type_synonym Date = int

datatype DomainEvent =
    OrderCreatedEvent string string string Money "(string \<times> number \<times> Money) list"
  | OrderPaidEvent string string Money Date
  | OrderCancelledEvent string string Date
  | OrderShippedEvent string string string string
  | OrderDeliveredEvent string Date

text \<open>
  An \<open>Order\<close>: the aggregate's identifier, its \<open>props\<close> and the domain events it has
  recorded and not yet published.
\<close>

record Order =
  orderId :: string
  orderNumber :: string
  customerId :: string
  items :: "OrderItem list"
  shippingAddress :: Address
  billingAddress :: Address
  subtotal :: Money
  discountAmount :: Money
  shippingFee :: Money
  taxAmount :: Money
  totalAmount :: Money
  paymentMethod :: PaymentMethod
  status :: OrderStatus
  paymentStatus :: PaymentStatus
  shippingStatus :: ShippingStatus
  orderDate :: Date
  paidAt :: "Date option"
  shippedAt :: "Date option"
  deliveredAt :: "Date option"
  orderNotes :: "string option"
  metadata :: OrderMetadata
  domainEvents :: "DomainEvent list"

text \<open>The loop of \<open>calculateSubtotalFromItems\<close>: \<open>subtotal = subtotal.add(item.getTotalPrice())\<close>.\<close>

fun add_totals :: "Money \<Rightarrow> OrderItem list \<Rightarrow> error + Money" where
  "add_totals acc [] = Inr acc"
| "add_totals acc (i # rest) = bindE (Money_add acc (totalPrice i)) (\<lambda>acc'. add_totals acc' rest)"

definition calculateSubtotalFromItems :: "OrderItem list \<Rightarrow> error + Money" where
  "calculateSubtotalFromItems its =
     (case its of
        [] \<Rightarrow> Inl OrderItemsEmpty
      | i # _ \<Rightarrow> bindE (Money_zero (currency (unitPrice i))) (\<lambda>zero. add_totals zero its))"

text \<open>\<open>subtotal.subtract(discountAmount).add(shippingFee).add(taxAmount)\<close>.\<close>

definition total_of :: "Money \<Rightarrow> Money \<Rightarrow> Money \<Rightarrow> Money \<Rightarrow> error + Money" where
  "total_of sub disc ship tax =
     bindE (Money_subtract sub disc) (\<lambda>a.
     bindE (Money_add a ship) (\<lambda>b.
     Money_add b tax))"

text \<open>\<open>Order.validate\<close>, run by the constructor on the properties it was given.\<close>

definition Order_validate :: "Order \<Rightarrow> error + unit" where
  "Order_validate p =
     (if customerId p = [] then Inl CustomerIdEmpty
      else if items p = [] then Inl OrderWithoutItems
      else bindE (calculateSubtotalFromItems (items p)) (\<lambda>calculatedSubtotal.
           if \<not> Money_equals (subtotal p) calculatedSubtotal then Inl SubtotalMismatch
           else bindE (total_of (subtotal p) (discountAmount p) (shippingFee p) (taxAmount p))
                  (\<lambda>calculatedTotal.
           if \<not> Money_equals (totalAmount p) calculatedTotal then Inl TotalMismatch
           else if status p = OS_PAID \<and> paymentStatus p \<noteq> PS_COMPLETED
             then Inl PaymentStatusInconsistent
           else if status p = OS_SHIPPED \<and> shippingStatus p \<noteq> SS_SHIPPED
             then Inl ShippingStatusInconsistent
           else Inr ())))"

text \<open>
  The private constructor: the aggregate starts with no recorded event and keeps the
  properties only if they pass \<open>validate\<close>.
\<close>

definition Order_new :: "Order \<Rightarrow> error + Order" where
  "Order_new p = bindE (Order_validate (p\<lparr>domainEvents := []\<rparr>)) (\<lambda>_. Inr (p\<lparr>domainEvents := []\<rparr>))"

text \<open>\<open>Order.reconstitute(props, id)\<close>.\<close>

definition Order_reconstitute :: "Order \<Rightarrow> string \<Rightarrow> error + Order" where
  "Order_reconstitute p oid = Order_new (p\<lparr>orderId := oid\<rparr>)"

text \<open>
  A default parameter of \<open>Order.create\<close>: an absent argument is
  \<open>Money.zero(items[0].getUnitPrice().getCurrency())\<close>, which is a \<open>TypeError\<close> on an
  empty list.
\<close>

definition default_money :: "OrderItem list \<Rightarrow> Money option \<Rightarrow> error + Money" where
  "default_money its arg =
     (case arg of
        Some m \<Rightarrow> Inr m
      | None \<Rightarrow> (case its of [] \<Rightarrow> Inl TypeError | i # _ \<Rightarrow> Money_zero (currency (unitPrice i))))"

definition merge_metadata :: "PartialMetadata \<Rightarrow> OrderMetadata" where
  "merge_metadata m =
     \<lparr>couponCode = p_couponCode m, promotionId = p_promotionId m,
      channel = (case p_channel m of None \<Rightarrow> ''web'' | Some c \<Rightarrow> c),
      userAgent = p_userAgent m, ipAddress = p_ipAddress m\<rparr>"

text \<open>
  \<open>Order.create\<close>. The identifier, the order number and the current time come from the
  clock and the random generator; they are the parameters \<open>oid\<close>, \<open>num\<close> and \<open>now\<close>.
\<close>

definition Order_create ::
  "string \<Rightarrow> string \<Rightarrow> Date \<Rightarrow> string \<Rightarrow> OrderItem list \<Rightarrow> Address \<Rightarrow> Address \<Rightarrow> PaymentMethod
     \<Rightarrow> Money option \<Rightarrow> Money option \<Rightarrow> Money option \<Rightarrow> string option \<Rightarrow> PartialMetadata
     \<Rightarrow> error + Order" where
  "Order_create oid num now cust its shipTo billTo method shipOpt taxOpt discOpt note meta =
     bindE (default_money its shipOpt) (\<lambda>ship.
     bindE (default_money its taxOpt) (\<lambda>tax.
     bindE (default_money its discOpt) (\<lambda>disc.
     if its = [] then Inl OrderWithoutItems
     else bindE (calculateSubtotalFromItems its) (\<lambda>sub.
          bindE (total_of sub disc ship tax) (\<lambda>total.
          bindE (Order_new
                   \<lparr>orderId = oid, orderNumber = num, customerId = cust, items = its,
                    shippingAddress = shipTo, billingAddress = billTo, subtotal = sub,
                    discountAmount = disc, shippingFee = ship, taxAmount = tax,
                    totalAmount = total, paymentMethod = method, status = OS_PENDING,
                    paymentStatus = PS_PENDING, shippingStatus = SS_PENDING, orderDate = now,
                    paidAt = None, shippedAt = None, deliveredAt = None, orderNotes = note,
                    metadata = merge_metadata meta, domainEvents = []\<rparr>) (\<lambda>order.
          Inr (order\<lparr>domainEvents :=
                 domainEvents order @
                 [OrderCreatedEvent oid num cust total
                    (map (\<lambda>i. (productId i, quantity i, unitPrice i)) its)]\<rparr>)))))))"

subsection \<open>Lifecycle methods\<close>

text \<open>
  A method mutates the order and may throw. It is a function from the order before the
  call to the outcome (\<open>Inl\<close> the error thrown, \<open>Inr ()\<close> a normal return) and the order
  as the call leaves it.
\<close>

definition Order_pay :: "string \<Rightarrow> Date \<Rightarrow> Order \<Rightarrow> (error + unit) \<times> Order" where
  "Order_pay paymentId now p =
     (if status p \<noteq> OS_PENDING then (Inl OnlyPendingCanPay, p)
      else if paymentStatus p \<noteq> PS_PENDING then (Inl PaymentStatusAbnormal, p)
      else (Inr (),
            p\<lparr>status := OS_PAID, paymentStatus := PS_COMPLETED, paidAt := Some now,
              domainEvents :=
                domainEvents p @ [OrderPaidEvent (orderId p) paymentId (totalAmount p) now]\<rparr>))"

definition Order_startProcessing :: "Order \<Rightarrow> (error + unit) \<times> Order" where
  "Order_startProcessing p =
     (if status p \<noteq> OS_PAID then (Inl OnlyPaidCanProcess, p)
      else (Inr (), p\<lparr>status := OS_PROCESSING, shippingStatus := SS_PREPARING\<rparr>))"

definition Order_ship :: "string \<Rightarrow> string \<Rightarrow> string \<Rightarrow> Date \<Rightarrow> Order \<Rightarrow> (error + unit) \<times> Order" where
  "Order_ship shipmentId trackingNumber carrier now p =
     (if status p \<noteq> OS_PROCESSING then (Inl OnlyProcessingCanShip, p)
      else (Inr (),
            p\<lparr>status := OS_SHIPPED, shippingStatus := SS_SHIPPED, shippedAt := Some now,
              domainEvents :=
                domainEvents p
                @ [OrderShippedEvent (orderId p) shipmentId trackingNumber carrier]\<rparr>))"

definition Order_deliver :: "Date \<Rightarrow> Order \<Rightarrow> (error + unit) \<times> Order" where
  "Order_deliver now p =
     (if status p \<noteq> OS_SHIPPED then (Inl OnlyShippedCanDeliver, p)
      else (Inr (),
            p\<lparr>status := OS_DELIVERED, shippingStatus := SS_DELIVERED, deliveredAt := Some now,
              domainEvents := domainEvents p @ [OrderDeliveredEvent (orderId p) now]\<rparr>))"

definition Order_complete :: "Order \<Rightarrow> (error + unit) \<times> Order" where
  "Order_complete p =
     (if status p \<noteq> OS_DELIVERED then (Inl OnlyDeliveredCanComplete, p)
      else (Inr (), p\<lparr>status := OS_COMPLETED\<rparr>))"

definition Order_cancel :: "string \<Rightarrow> Date \<Rightarrow> Order \<Rightarrow> (error + unit) \<times> Order" where
  "Order_cancel reason now p =
     (if status p \<in> set [OS_SHIPPED, OS_DELIVERED, OS_COMPLETED] then (Inl ShippedCannotCancel, p)
      else let p1 = (if status p = OS_PAID \<or> status p = OS_PROCESSING
                     then p\<lparr>paymentStatus := PS_REFUNDED\<rparr> else p)
           in (Inr (),
               p1\<lparr>status := OS_CANCELLED,
                  domainEvents := domainEvents p1 @ [OrderCancelledEvent (orderId p1) reason now]\<rparr>))"

definition Order_refund :: "Order \<Rightarrow> (error + unit) \<times> Order" where
  "Order_refund p =
     (if paymentStatus p \<noteq> PS_COMPLETED then (Inl OnlyCompletedPaymentCanRefund, p)
      else (Inr (), p\<lparr>status := OS_REFUNDED, paymentStatus := PS_REFUNDED\<rparr>))"

definition Order_canCancel :: "Order \<Rightarrow> bool" where
  "Order_canCancel p =
     (status p \<notin> set [OS_SHIPPED, OS_DELIVERED, OS_COMPLETED, OS_CANCELLED])"

text \<open>The lifecycle methods as one family, for statements about all of them.\<close>

datatype lifecycle =
    Pay string | StartProcessing | Ship string string string | Deliver | Complete
  | Cancel string | Refund

fun invoke :: "lifecycle \<Rightarrow> Date \<Rightarrow> Order \<Rightarrow> (error + unit) \<times> Order" where
  "invoke (Pay paymentId) now p = Order_pay paymentId now p"
| "invoke StartProcessing now p = Order_startProcessing p"
| "invoke (Ship shipmentId trackingNumber carrier) now p =
     Order_ship shipmentId trackingNumber carrier now p"
| "invoke Deliver now p = Order_deliver now p"
| "invoke Complete now p = Order_complete p"
| "invoke (Cancel reason) now p = Order_cancel reason now p"
| "invoke Refund now p = Order_refund p"


section \<open>The order pricing service\<close>

record OrderPricing =
  pricingSubtotal :: Money
  pricingDiscount :: Money
  pricingShippingFee :: Money
  pricingTax :: Money
  pricingTotal :: Money

datatype DiscountType = PERCENTAGE | FIXED_AMOUNT | FREE_SHIPPING

record DiscountRule =
  ruleType :: DiscountType
  ruleValue :: number
  minOrderAmount :: "Money option"
  maxDiscountAmount :: "Money option"

record ShippingRule =
  baseRate :: Money
  freeShippingThreshold :: "Money option"
  weightMultiplier :: "number option"

record TaxRule =
  rate :: number
  taxableCategories :: "string list option"

definition cny :: "real \<Rightarrow> Money" where
  "cny a = \<lparr>amount = Fin a, currency = CNY\<rparr>"

text \<open>
  \<open>getDiscountRuleByCoupon\<close>: the table of the three coupons \<open>SAVE10\<close> (ten percent, from
  100, at most 50), \<open>WELCOME20\<close> (20 off, from 200) and \<open>FREESHIP\<close> (from 150). Any other
  code has no rule.
\<close>

definition getDiscountRuleByCoupon :: "string \<Rightarrow> DiscountRule option" where
  "getDiscountRuleByCoupon code =
     (if code = ''SAVE10'' then
        Some \<lparr>ruleType = PERCENTAGE, ruleValue = Fin 10, minOrderAmount = Some (cny 100),
              maxDiscountAmount = Some (cny 50)\<rparr>
      else if code = ''WELCOME20'' then
        Some \<lparr>ruleType = FIXED_AMOUNT, ruleValue = Fin 20, minOrderAmount = Some (cny 200),
              maxDiscountAmount = None\<rparr>
      else if code = ''FREESHIP'' then
        Some \<lparr>ruleType = FREE_SHIPPING, ruleValue = Fin 0, minOrderAmount = Some (cny 150),
              maxDiscountAmount = None\<rparr>
      else None)"

text \<open>
  The four provinces of the first rule of \<open>getShippingRuleByAddress\<close> (Beijing, Shanghai,
  Guangzhou, Shenzhen), as the UTF-8 bytes of their Chinese names.
\<close>

definition Beijing :: string where
  "Beijing = [CHR 0xE5, CHR 0x8C, CHR 0x97, CHR 0xE4, CHR 0xBA, CHR 0xAC]"

definition Shanghai :: string where
  "Shanghai = [CHR 0xE4, CHR 0xB8, CHR 0x8A, CHR 0xE6, CHR 0xB5, CHR 0xB7]"

definition Guangzhou :: string where
  "Guangzhou = [CHR 0xE5, CHR 0xB9, CHR 0xBF, CHR 0xE5, CHR 0xB7, CHR 0x9E]"

definition Shenzhen :: string where
  "Shenzhen = [CHR 0xE6, CHR 0xB7, CHR 0xB1, CHR 0xE5, CHR 0x9C, CHR 0xB3]"

text \<open>
  \<open>getShippingRuleByAddress\<close>: base 8 and free above 199 in the four cities; elsewhere
  base 12, free above 299, and 2 per unit of weight. It always finds a rule.
\<close>

definition getShippingRuleByAddress :: "Address \<Rightarrow> ShippingRule option" where
  "getShippingRuleByAddress address =
     (if province address \<in> set [Beijing, Shanghai, Guangzhou, Shenzhen] then
        Some \<lparr>baseRate = cny 8, freeShippingThreshold = Some (cny 199), weightMultiplier = None\<rparr>
      else
        Some \<lparr>baseRate = cny 12, freeShippingThreshold = Some (cny 299),
              weightMultiplier = Some (Fin 2)\<rparr>)"

text \<open>\<open>getTaxRuleByAddress\<close> returns no rule for any address.\<close>

definition getTaxRuleByAddress :: "Address \<Rightarrow> TaxRule option" where
  "getTaxRuleByAddress address = None"

text \<open>\<open>calculateSubtotal\<close>, the service's own copy of the aggregate's sum.\<close>

definition calculateSubtotal :: "OrderItem list \<Rightarrow> error + Money" where
  "calculateSubtotal its =
     (case its of
        [] \<Rightarrow> Inl OrderItemsEmpty
      | i # _ \<Rightarrow> bindE (Money_zero (currency (unitPrice i))) (\<lambda>zero. add_totals zero its))"

text \<open>The end of \<open>applyDiscountRule\<close>: the cap by the rule's maximum, then by the subtotal.\<close>

definition cap_discount :: "DiscountRule \<Rightarrow> Money \<Rightarrow> Money \<Rightarrow> error + Money" where
  "cap_discount rule sub d =
     bindE (case maxDiscountAmount rule of
              None \<Rightarrow> Inr d
            | Some mx \<Rightarrow> bindE (Money_isGreaterThan d mx) (\<lambda>g. Inr (if g then mx else d)))
       (\<lambda>d1. bindE (Money_isGreaterThan d1 sub) (\<lambda>g. Inr (if g then sub else d1)))"

definition applyDiscountRule :: "OrderItem list \<Rightarrow> Money \<Rightarrow> DiscountRule \<Rightarrow> error + Money" where
  "applyDiscountRule its sub rule =
     bindE (case minOrderAmount rule of
              None \<Rightarrow> Inr False
            | Some mn \<Rightarrow> Money_isLessThan sub mn) (\<lambda>below.
     if below then Money_zero (currency sub)
     else case ruleType rule of
            PERCENTAGE \<Rightarrow>
              bindE (Money_multiply sub (js_div (ruleValue rule) (Fin 100))) (cap_discount rule sub)
          | FIXED_AMOUNT \<Rightarrow>
              bindE (Money_new (ruleValue rule) (currency sub)) (cap_discount rule sub)
          | FREE_SHIPPING \<Rightarrow> Money_zero (currency sub))"

text \<open>\<open>calculateDiscount\<close>; a missing or empty coupon code is falsy.\<close>

definition calculateDiscount :: "OrderItem list \<Rightarrow> Money \<Rightarrow> string option \<Rightarrow> error + Money" where
  "calculateDiscount its sub coupon =
     (case coupon of
        None \<Rightarrow> Money_zero (currency sub)
      | Some code \<Rightarrow>
          if code = [] then Money_zero (currency sub)
          else case getDiscountRuleByCoupon code of
                 None \<Rightarrow> Money_zero (currency sub)
               | Some rule \<Rightarrow> applyDiscountRule its sub rule)"

text \<open>\<open>calculateTotalWeight\<close>: \<open>items.reduce((total, item) => total + item.getQuantity(), 0)\<close>.\<close>

definition calculateTotalWeight :: "OrderItem list \<Rightarrow> number" where
  "calculateTotalWeight its = foldl (\<lambda>total i. js_add total (quantity i)) (Fin 0) its"

text \<open>A number is truthy unless it is zero or \<open>NaN\<close>.\<close>

definition truthy :: "number \<Rightarrow> bool" where
  "truthy x = (x \<noteq> Fin 0 \<and> x \<noteq> NaN)"

definition calculateShippingFee :: "OrderItem list \<Rightarrow> Address \<Rightarrow> Money \<Rightarrow> Money \<Rightarrow> error + Money" where
  "calculateShippingFee its address sub disc =
     (case getShippingRuleByAddress address of
        None \<Rightarrow> Money_new (Fin 10) (currency sub)
      | Some rule \<Rightarrow>
          bindE (Money_subtract sub disc) (\<lambda>orderAmountAfterDiscount.
          bindE (case freeShippingThreshold rule of
                   None \<Rightarrow> Inr False
                 | Some t \<Rightarrow> Money_isGreaterThan orderAmountAfterDiscount t) (\<lambda>free.
          if free then Money_zero (currency sub)
          else case weightMultiplier rule of
                 None \<Rightarrow> Inr (baseRate rule)
               | Some w \<Rightarrow>
                   if truthy w then
                     bindE (Money_new (js_mul (calculateTotalWeight its) w) (currency sub))
                       (\<lambda>weightCharge. Money_add (baseRate rule) weightCharge)
                   else Inr (baseRate rule))))"

definition calculateTax :: "OrderItem list \<Rightarrow> Address \<Rightarrow> Money \<Rightarrow> Money \<Rightarrow> error + Money" where
  "calculateTax its address sub disc =
     (case getTaxRuleByAddress address of
        None \<Rightarrow> Money_zero (currency sub)
      | Some taxRule \<Rightarrow>
          bindE (Money_subtract sub disc) (\<lambda>taxableAmount.
          Money_multiply taxableAmount (rate taxRule)))"

text \<open>\<open>calculateOrderPricing\<close>; its \<open>currency\<close> parameter is not read.\<close>

definition calculateOrderPricing ::
  "OrderItem list \<Rightarrow> Address \<Rightarrow> string option \<Rightarrow> error + OrderPricing" where
  "calculateOrderPricing its address coupon =
     (if its = [] then Inl OrderItemsEmpty
      else bindE (calculateSubtotal its) (\<lambda>sub.
           bindE (calculateDiscount its sub coupon) (\<lambda>disc.
           bindE (calculateShippingFee its address sub disc) (\<lambda>ship.
           bindE (calculateTax its address sub disc) (\<lambda>tax.
           bindE (total_of sub disc ship tax) (\<lambda>total.
           Inr \<lparr>pricingSubtotal = sub, pricingDiscount = disc, pricingShippingFee = ship,
                pricingTax = tax, pricingTotal = total\<rparr>))))))"

text \<open>The messages \<open>validateOrderPricing\<close> can collect, in the order of its checks.\<close>

datatype discrepancy =
    SubtotalWrong number number
  | TotalWrong number number
  | DiscountAboveSubtotal
  | SubtotalBelowZero
  | DiscountBelowZero
  | ShippingFeeBelowZero
  | TaxBelowZero

definition validateOrderPricing ::
  "OrderItem list \<Rightarrow> OrderPricing \<Rightarrow> error + (bool \<times> discrepancy list)" where
  "validateOrderPricing its pricing =
     bindE (calculateSubtotal its) (\<lambda>calculatedSubtotal.
     bindE (total_of (pricingSubtotal pricing) (pricingDiscount pricing)
              (pricingShippingFee pricing) (pricingTax pricing)) (\<lambda>calculatedTotal.
     bindE (Money_isGreaterThan (pricingDiscount pricing) (pricingSubtotal pricing)) (\<lambda>above.
     let errors =
           (if \<not> Money_equals (pricingSubtotal pricing) calculatedSubtotal
            then [SubtotalWrong (amount calculatedSubtotal) (amount (pricingSubtotal pricing))]
            else [])
         @ (if \<not> Money_equals (pricingTotal pricing) calculatedTotal
            then [TotalWrong (amount calculatedTotal) (amount (pricingTotal pricing))]
            else [])
         @ (if above then [DiscountAboveSubtotal] else [])
         @ (if js_lt (amount (pricingSubtotal pricing)) (Fin 0) then [SubtotalBelowZero] else [])
         @ (if js_lt (amount (pricingDiscount pricing)) (Fin 0) then [DiscountBelowZero] else [])
         @ (if js_lt (amount (pricingShippingFee pricing)) (Fin 0) then [ShippingFeeBelowZero]
            else [])
         @ (if js_lt (amount (pricingTax pricing)) (Fin 0) then [TaxBelowZero] else [])
     in Inr (errors = [], errors))))"

text \<open>
  The loop of \<open>calculateOptimalPricing\<close> over the coupons, on the three variables
  \<open>bestPricing\<close>, \<open>bestCoupon\<close> and \<open>maxSavings\<close>.
\<close>

fun try_coupons ::
  "OrderItem list \<Rightarrow> Address \<Rightarrow> string list \<Rightarrow> OrderPricing \<times> string option \<times> Money
     \<Rightarrow> error + OrderPricing \<times> string option \<times> Money" where
  "try_coupons its address [] best = Inr best"
| "try_coupons its address (coupon # rest) (bestPricing, bestCoupon, maxSavings) =
     bindE (calculateOrderPricing its address (Some coupon)) (\<lambda>pricingWithCoupon.
     bindE (Money_subtract (pricingTotal bestPricing) (pricingTotal pricingWithCoupon)) (\<lambda>savings.
     bindE (Money_isGreaterThan savings maxSavings) (\<lambda>better.
     try_coupons its address rest
       (if better then (pricingWithCoupon, Some coupon, savings)
        else (bestPricing, bestCoupon, maxSavings)))))"

text \<open>\<open>calculateOptimalPricing\<close>: the pricing kept, the coupon kept and the savings.\<close>

definition calculateOptimalPricing ::
  "OrderItem list \<Rightarrow> Address \<Rightarrow> string list \<Rightarrow> error + OrderPricing \<times> string option \<times> Money" where
  "calculateOptimalPricing its address availableCoupons =
     bindE (calculateOrderPricing its address None) (\<lambda>bestPricing.
     bindE (Money_zero (currency (pricingTotal bestPricing))) (\<lambda>maxSavings.
     try_coupons its address availableCoupons (bestPricing, None, maxSavings)))"


section \<open>Inventory\<close>

text \<open>Stock counts are whole numbers of units; they are modelled as integers.\<close>

record Inventory =
  stockQuantity :: int
  reservedQuantity :: int
  minStockLevel :: int

definition Inventory_validate :: "Inventory \<Rightarrow> error + unit" where
  "Inventory_validate v =
     (if stockQuantity v < 0 then Inl StockNegative
      else if reservedQuantity v < 0 then Inl ReservedNegative
      else if minStockLevel v < 0 then Inl MinStockLevelNegative
      else if reservedQuantity v > stockQuantity v then Inl ReservedExceedsStock
      else Inr ())"

text \<open>The constructor \<open>new Inventory(quantity, reservedQuantity, minStockLevel)\<close>.\<close>

definition Inventory_new :: "int \<Rightarrow> int \<Rightarrow> int \<Rightarrow> error + Inventory" where
  "Inventory_new q r m =
     bindE (Inventory_validate \<lparr>stockQuantity = q, reservedQuantity = r, minStockLevel = m\<rparr>)
       (\<lambda>_. Inr \<lparr>stockQuantity = q, reservedQuantity = r, minStockLevel = m\<rparr>)"

definition getAvailableQuantity :: "Inventory \<Rightarrow> int" where
  "getAvailableQuantity v = stockQuantity v - reservedQuantity v"

definition isInStock :: "Inventory \<Rightarrow> bool" where
  "isInStock v = (getAvailableQuantity v > 0)"

definition canReserve :: "Inventory \<Rightarrow> int \<Rightarrow> bool" where
  "canReserve v n = (getAvailableQuantity v \<ge> n)"

definition Inventory_reserve :: "Inventory \<Rightarrow> int \<Rightarrow> error + Inventory" where
  "Inventory_reserve v n =
     (if n \<le> 0 then Inl ReserveNotPositive
      else if \<not> canReserve v n then Inl StockInsufficient
      else Inventory_new (stockQuantity v) (reservedQuantity v + n) (minStockLevel v))"

definition Inventory_releaseReservation :: "Inventory \<Rightarrow> int \<Rightarrow> error + Inventory" where
  "Inventory_releaseReservation v n =
     (if n \<le> 0 then Inl ReleaseNotPositive
      else if n > reservedQuantity v then Inl ReleaseExceedsReserved
      else Inventory_new (stockQuantity v) (reservedQuantity v - n) (minStockLevel v))"

definition Inventory_deduct :: "Inventory \<Rightarrow> int \<Rightarrow> error + Inventory" where
  "Inventory_deduct v n =
     (if n \<le> 0 then Inl DeductNotPositive
      else if n > reservedQuantity v then Inl DeductExceedsReserved
      else Inventory_new (stockQuantity v - n) (reservedQuantity v - n) (minStockLevel v))"

definition Inventory_addStock :: "Inventory \<Rightarrow> int \<Rightarrow> error + Inventory" where
  "Inventory_addStock v n =
     (if n \<le> 0 then Inl AddStockNotPositive
      else Inventory_new (stockQuantity v + n) (reservedQuantity v) (minStockLevel v))"

definition Inventory_updateMinStockLevel :: "Inventory \<Rightarrow> int \<Rightarrow> error + Inventory" where
  "Inventory_updateMinStockLevel v m =
     (if m < 0 then Inl MinStockLevelNegative
      else Inventory_new (stockQuantity v) (reservedQuantity v) m)"

text \<open>
  Modelled from the spec: \<open>Inventory.getAvailable\<close>, which \<open>InventoryService\<close> calls and
  \<open>Inventory.ts\<close> does not declare. The spec reads it as the product's available count,
  the total less the reserved, which the class computes in \<open>getAvailableQuantity\<close>.
\<close>

definition getAvailable :: "Inventory \<Rightarrow> int" where
  "getAvailable v = getAvailableQuantity v"

section \<open>The Product aggregate\<close>

datatype ProductStatus = DRAFT | ACTIVE | INACTIVE | OUT_OF_STOCK | DISCONTINUED

text \<open>The string each member of the enumeration has at run time.\<close>

fun ProductStatus_value :: "ProductStatus \<Rightarrow> string" where
  "ProductStatus_value DRAFT = ''draft''"
| "ProductStatus_value ACTIVE = ''active''"
| "ProductStatus_value INACTIVE = ''inactive''"
| "ProductStatus_value OUT_OF_STOCK = ''out_of_stock''"
| "ProductStatus_value DISCONTINUED = ''discontinued''"

datatype stock_change = Reserved int | Released int | Deducted int | Added int

datatype ProductEvent =
    InventoryUpdatedEvent string int int stock_change
  | ProductStatusChangedEvent string ProductStatus ProductStatus

text \<open>
  The part of a \<open>Product\<close> that the inventory operations read or write: its identifier,
  status, inventory and recorded events.
\<close>

record Product =
  productKey :: string
  productStatus :: ProductStatus
  inventory :: Inventory
  productEvents :: "ProductEvent list"

definition Product_updateStatus :: "ProductStatus \<Rightarrow> Product \<Rightarrow> (error + unit) \<times> Product" where
  "Product_updateStatus st p =
     (if productStatus p = st then (Inr (), p)
      else if st = ACTIVE \<and> \<not> isInStock (inventory p) then (Inl NoStockCannotActivate, p)
      else (Inr (),
            p\<lparr>productStatus := st,
              productEvents :=
                productEvents p @ [ProductStatusChangedEvent (productKey p) (productStatus p) st]\<rparr>))"

text \<open>
  The common end of the four stock methods: the new inventory is stored, the status
  follows it (\<open>follow\<close> is \<open>markAsOutOfStock\<close> or \<open>activate\<close> under the method's
  condition), and the stock event is recorded.
\<close>

definition Product_store ::
  "Inventory \<Rightarrow> (Product \<Rightarrow> (error + unit) \<times> Product) \<Rightarrow> stock_change \<Rightarrow> Product
     \<Rightarrow> (error + unit) \<times> Product" where
  "Product_store v follow change p =
     (case follow (p\<lparr>inventory := v\<rparr>) of
        (Inl e, p') \<Rightarrow> (Inl e, p')
      | (Inr _, p') \<Rightarrow>
          (Inr (),
           p'\<lparr>productEvents :=
                productEvents p'
                @ [InventoryUpdatedEvent (productKey p') (stockQuantity (inventory p))
                     (stockQuantity (inventory p')) change]\<rparr>))"

definition markAsOutOfStock_if_empty :: "Product \<Rightarrow> (error + unit) \<times> Product" where
  "markAsOutOfStock_if_empty p =
     (if \<not> isInStock (inventory p) then Product_updateStatus OUT_OF_STOCK p else (Inr (), p))"

definition activate_if_restocked :: "Product \<Rightarrow> (error + unit) \<times> Product" where
  "activate_if_restocked p =
     (if productStatus p = OUT_OF_STOCK \<and> isInStock (inventory p)
      then Product_updateStatus ACTIVE p else (Inr (), p))"

definition Product_reserveInventory :: "int \<Rightarrow> Product \<Rightarrow> (error + unit) \<times> Product" where
  "Product_reserveInventory n p =
     (if productStatus p \<noteq> ACTIVE then (Inl OnlyActiveCanReserve, p)
      else case Inventory_reserve (inventory p) n of
             Inl e \<Rightarrow> (Inl e, p)
           | Inr v \<Rightarrow> Product_store v markAsOutOfStock_if_empty (Reserved n) p)"

definition Product_releaseInventory :: "int \<Rightarrow> Product \<Rightarrow> (error + unit) \<times> Product" where
  "Product_releaseInventory n p =
     (case Inventory_releaseReservation (inventory p) n of
        Inl e \<Rightarrow> (Inl e, p)
      | Inr v \<Rightarrow> Product_store v activate_if_restocked (Released n) p)"

definition Product_deductInventory :: "int \<Rightarrow> Product \<Rightarrow> (error + unit) \<times> Product" where
  "Product_deductInventory n p =
     (case Inventory_deduct (inventory p) n of
        Inl e \<Rightarrow> (Inl e, p)
      | Inr v \<Rightarrow> Product_store v markAsOutOfStock_if_empty (Deducted n) p)"

definition Product_addStock :: "int \<Rightarrow> Product \<Rightarrow> (error + unit) \<times> Product" where
  "Product_addStock n p =
     (case Inventory_addStock (inventory p) n of
        Inl e \<Rightarrow> (Inl e, p)
      | Inr v \<Rightarrow> Product_store v activate_if_restocked (Added n) p)"

section \<open>The inventory service\<close>

text \<open>
  The product repository is a store from identifiers to products. \<open>findById\<close> hands out
  the stored product (a fresh object each time, as a database repository builds one from
  its document) and \<open>save\<close> writes one back.
\<close>

type_synonym ProductRepository = "string \<rightharpoonup> Product"

record InventoryReservationItem =
  ri_productId :: string
  ri_productName :: string
  requestedQuantity :: int

record InvalidItem =
  inv_productId :: string
  inv_productName :: string
  inv_requestedQuantity :: int
  availableQuantity :: int
  inv_reason :: reason

text \<open>
  One turn of the loop of \<open>validateInventoryAvailability\<close>: what the item adds to
  \<open>invalidItems\<close>. The status is compared with the string \<open>'ACTIVE'\<close>, as the source
  writes it.
\<close>

definition validate_item :: "ProductRepository \<Rightarrow> InventoryReservationItem \<Rightarrow> InvalidItem list" where
  "validate_item repo item =
     (case repo (ri_productId item) of
        None \<Rightarrow>
          [\<lparr>inv_productId = ri_productId item, inv_productName = ri_productName item,
            inv_requestedQuantity = requestedQuantity item, availableQuantity = 0,
            inv_reason = ProductNotFound\<rparr>]
      | Some product \<Rightarrow>
          if ProductStatus_value (productStatus product) \<noteq> ''ACTIVE'' then
            [\<lparr>inv_productId = ri_productId item, inv_productName = ri_productName item,
              inv_requestedQuantity = requestedQuantity item, availableQuantity = 0,
              inv_reason = ProductOffShelf\<rparr>]
          else if getAvailable (inventory product) < requestedQuantity item then
            [\<lparr>inv_productId = ri_productId item, inv_productName = ri_productName item,
              inv_requestedQuantity = requestedQuantity item,
              availableQuantity = getAvailable (inventory product),
              inv_reason = InsufficientStock (getAvailable (inventory product))
                             (requestedQuantity item)\<rparr>]
          else [])"

text \<open>\<open>validateInventoryAvailability\<close>: the validity flag and the invalid items.\<close>

definition validateInventoryAvailability ::
  "ProductRepository \<Rightarrow> InventoryReservationItem list \<Rightarrow> bool \<times> InvalidItem list" where
  "validateInventoryAvailability repo its =
     (concat (map (validate_item repo) its) = [], concat (map (validate_item repo) its))"

text \<open>The second loop of \<open>reserveInventoryBatch\<close> loads the products again.\<close>

fun load_products :: "ProductRepository \<Rightarrow> InventoryReservationItem list \<Rightarrow> error + Product list" where
  "load_products repo [] = Inr []"
| "load_products repo (item # rest) =
     (case repo (ri_productId item) of
        None \<Rightarrow> Inl (ProductMissing (ri_productName item))
      | Some product \<Rightarrow> bindE (load_products repo rest) (\<lambda>ps. Inr (product # ps)))"

text \<open>The loop \<open>products[i].reserveInventory(items[i].requestedQuantity)\<close>.\<close>

fun reserve_each :: "Product list \<Rightarrow> InventoryReservationItem list \<Rightarrow> error + Product list" where
  "reserve_each (product # ps) (item # rest) =
     (case Product_reserveInventory (requestedQuantity item) product of
        (Inl e, _) \<Rightarrow> Inl e
      | (Inr _, product') \<Rightarrow> bindE (reserve_each ps rest) (\<lambda>ps'. Inr (product' # ps')))"
| "reserve_each _ _ = Inr []"

definition save_all :: "ProductRepository \<Rightarrow> Product list \<Rightarrow> ProductRepository" where
  "save_all repo ps = foldl (\<lambda>r product. r(productKey product \<mapsto> product)) repo ps"

text \<open>
  \<open>reserveInventoryBatch\<close>: the outcome and the repository as the call leaves it. The
  message of the validation error lists \<open>productName: reason\<close> for each invalid item.
\<close>

definition reserveInventoryBatch ::
  "InventoryReservationItem list \<Rightarrow> ProductRepository \<Rightarrow> (error + Product list) \<times> ProductRepository" where
  "reserveInventoryBatch its repo =
     (case validateInventoryAvailability repo its of
        (False, invalidItems) \<Rightarrow>
          (Inl (InventoryValidationFailed
                  (map (\<lambda>i. (inv_productName i, inv_reason i)) invalidItems)), repo)
      | (True, _) \<Rightarrow>
          (case load_products repo its of
             Inl e \<Rightarrow> (Inl e, repo)
           | Inr products \<Rightarrow>
               (case reserve_each products its of
                  Inl e \<Rightarrow> (Inl (InventoryReservationFailed e), repo)
                | Inr reserved \<Rightarrow> (Inr reserved, save_all repo reserved))))"

text \<open>\<open>releaseReservedInventoryBatch\<close>; an item is a product identifier and a quantity.\<close>

fun releaseReservedInventoryBatch ::
  "(string \<times> int) list \<Rightarrow> ProductRepository \<Rightarrow> (error + unit) \<times> ProductRepository" where
  "releaseReservedInventoryBatch [] repo = (Inr (), repo)"
| "releaseReservedInventoryBatch ((pid, n) # rest) repo =
     (case repo pid of
        None \<Rightarrow> releaseReservedInventoryBatch rest repo
      | Some product \<Rightarrow>
          (case Product_releaseInventory n product of
             (Inl e, _) \<Rightarrow> (Inl e, repo)
           | (Inr _, product') \<Rightarrow>
               releaseReservedInventoryBatch rest (repo(productKey product' \<mapsto> product'))))"

fun deductInventoryBatch ::
  "(string \<times> int) list \<Rightarrow> ProductRepository \<Rightarrow> (error + unit) \<times> ProductRepository" where
  "deductInventoryBatch [] repo = (Inr (), repo)"
| "deductInventoryBatch ((pid, n) # rest) repo =
     (case repo pid of
        None \<Rightarrow> deductInventoryBatch rest repo
      | Some product \<Rightarrow>
          (case Product_deductInventory n product of
             (Inl e, _) \<Rightarrow> (Inl e, repo)
           | (Inr _, product') \<Rightarrow>
               deductInventoryBatch rest (repo(productKey product' \<mapsto> product'))))"

definition canDeleteProduct :: "string \<Rightarrow> ProductRepository \<Rightarrow> bool" where
  "canDeleteProduct pid repo =
     (case repo pid of
        None \<Rightarrow> False
      | Some product \<Rightarrow> \<not> reservedQuantity (inventory product) > 0)"


section \<open>The checkout orchestration\<close>

text \<open>
  \<open>CreateOrderCommand.execute\<close> awaits its collaborators one after the other. A step is
  a function from the state of the world outside the command (the repositories, the
  event bus, the console) to its outcome and the world after it; a rejected promise is
  an \<open>Inl\<close>.
\<close>

type_synonym ('w, 'a) step = "'w \<Rightarrow> (error + 'a) \<times> 'w"

definition returnS :: "'a \<Rightarrow> ('w, 'a) step" where
  "returnS a = (\<lambda>w. (Inr a, w))"

definition throwS :: "error \<Rightarrow> ('w, 'a) step" where
  "throwS e = (\<lambda>w. (Inl e, w))"

definition bindS :: "('w, 'a) step \<Rightarrow> ('a \<Rightarrow> ('w, 'b) step) \<Rightarrow> ('w, 'b) step" where
  "bindS m f = (\<lambda>w. case m w of (Inl e, w') \<Rightarrow> (Inl e, w') | (Inr a, w') \<Rightarrow> f a w')"

text \<open>A step that cannot touch the world: a computation that returns or throws.\<close>

definition liftS :: "error + 'a \<Rightarrow> ('w, 'a) step" where
  "liftS r = (\<lambda>w. (r, w))"

text \<open>\<open>try { m } catch (error) { h(error) }\<close>.\<close>

definition tryCatch :: "('w, 'a) step \<Rightarrow> (error \<Rightarrow> ('w, 'a) step) \<Rightarrow> ('w, 'a) step" where
  "tryCatch m h = (\<lambda>w. case m w of (Inl e, w') \<Rightarrow> h e w' | (Inr a, w') \<Rightarrow> (Inr a, w'))"

record CartItem =
  ci_productId :: string
  ci_productName :: string
  ci_quantity :: int

record Cart =
  cartId :: string
  cartUserId :: string
  cartItems :: "CartItem list"
  cartEvents :: "(string \<times> string \<times> nat) list"

text \<open>\<open>Cart.clear\<close> empties the cart and records a \<open>CartClearedEvent\<close> with the item count.\<close>

definition Cart_clear :: "Cart \<Rightarrow> Cart" where
  "Cart_clear c =
     c\<lparr>cartItems := [],
       cartEvents := cartEvents c @ [(cartId c, cartUserId c, length (cartItems c))]\<rparr>"

definition Cart_isEmpty :: "Cart \<Rightarrow> bool" where
  "Cart_isEmpty c = (length (cartItems c) = 0)"

datatype published = OrderEvents "DomainEvent list" | CartEvents "(string \<times> string \<times> nat) list"

record CreateOrderRequest =
  req_userId :: string
  req_cartId :: "string option"
  req_shippingAddress :: Address
  req_billingAddress :: "Address option"
  req_paymentMethod :: PaymentMethod
  req_couponCode :: "string option"
  req_notes :: "string option"
  req_currency :: "Currency option"

record CreateOrderResponse =
  resp_orderId :: string
  resp_orderNumber :: string
  resp_totalAmount :: "number \<times> Currency"
  resp_subtotal :: "number \<times> Currency"
  resp_discountAmount :: "number \<times> Currency"
  resp_shippingFee :: "number \<times> Currency"
  resp_taxAmount :: "number \<times> Currency"

text \<open>
  The collaborators of the command. The repositories, the event bus and the inventory
  service are injected through the constructor. \<open>UserId\<close>, \<open>CartId\<close>, \<open>ProductId\<close>, the
  reading of a reserved product into an order item (\<open>createOrderItems\<close>) and the
  \<open>Address\<close> constructor behind \<open>createAddress\<close> belong to classes whose interface the
  command's source fixes only by its calls; they are parameters too, and so are the
  clock and random generator behind \<open>Order.create\<close> (\<open>fresh\<close>) and the console.
\<close>

record 'w collaborators =
  UserId_fromString :: "string \<Rightarrow> error + string"
  CartId_fromString :: "string \<Rightarrow> error + string"
  ProductId_fromString :: "string \<Rightarrow> error + string"
  cartRepository_findById :: "string \<Rightarrow> ('w, Cart option) step"
  cartRepository_findByUserId :: "string \<Rightarrow> ('w, Cart option) step"
  cartRepository_save :: "Cart \<Rightarrow> ('w, unit) step"
  orderRepository_save :: "Order \<Rightarrow> ('w, unit) step"
  eventBus_publishAll :: "published \<Rightarrow> ('w, unit) step"
  inventoryService_reserveInventoryBatch ::
    "InventoryReservationItem list \<Rightarrow> ('w, Product list) step"
  inventoryService_releaseReservedInventoryBatch :: "(string \<times> int) list \<Rightarrow> ('w, unit) step"
  createOrderItems :: "CartItem list \<Rightarrow> Product list \<Rightarrow> ('w, OrderItem list) step"
  createAddress :: "Address \<Rightarrow> error + Address"
  fresh :: "('w, string \<times> string \<times> Date) step"
  console_error :: "error \<Rightarrow> 'w \<Rightarrow> 'w"

definition getCart :: "'w collaborators \<Rightarrow> string option \<Rightarrow> string \<Rightarrow> ('w, Cart) step" where
  "getCart C cid userId =
     (case cid of
        Some c \<Rightarrow>
          if c = [] then
            bindS (cartRepository_findByUserId C userId) (\<lambda>cart.
            case cart of None \<Rightarrow> throwS CartNotFound | Some k \<Rightarrow> returnS k)
          else
            bindS (liftS (CartId_fromString C c)) (\<lambda>cartIdValue.
            bindS (cartRepository_findById C cartIdValue) (\<lambda>cart.
            case cart of None \<Rightarrow> throwS CartNotFound | Some k \<Rightarrow> returnS k))
      | None \<Rightarrow>
          bindS (cartRepository_findByUserId C userId) (\<lambda>cart.
          case cart of None \<Rightarrow> throwS CartNotFound | Some k \<Rightarrow> returnS k))"

text \<open>\<open>cartItems.map(...)\<close>, building the reservation batch; \<open>ProductId.fromString\<close> may throw.\<close>

fun inventoryItems_of :: "'w collaborators \<Rightarrow> CartItem list \<Rightarrow> error + InventoryReservationItem list" where
  "inventoryItems_of C [] = Inr []"
| "inventoryItems_of C (cartItem # rest) =
     bindE (ProductId_fromString C (ci_productId cartItem)) (\<lambda>pid.
     bindE (inventoryItems_of C rest) (\<lambda>its.
     Inr (\<lparr>ri_productId = pid, ri_productName = ci_productName cartItem,
           requestedQuantity = ci_quantity cartItem\<rparr> # its)))"

text \<open>
  \<open>releaseReservedInventory\<close>: the release runs inside its own \<open>try\<close>; its \<open>catch\<close> writes
  the error to the console and returns.
\<close>

definition releaseReservedInventory ::
  "'w collaborators \<Rightarrow> InventoryReservationItem list \<Rightarrow> ('w, unit) step" where
  "releaseReservedInventory C inventoryItems =
     tryCatch
       (inventoryService_releaseReservedInventoryBatch C
          (map (\<lambda>item. (ri_productId item, requestedQuantity item)) inventoryItems))
       (\<lambda>error w. (Inr (), console_error C error w))"

definition publishEvents :: "'w collaborators \<Rightarrow> Order \<Rightarrow> Cart \<Rightarrow> ('w, unit) step" where
  "publishEvents C order cart =
     bindS (eventBus_publishAll C (OrderEvents (domainEvents order))) (\<lambda>_.
     eventBus_publishAll C (CartEvents (cartEvents cart)))"

definition money_json :: "Money \<Rightarrow> number \<times> Currency" where
  "money_json m = (amount m, currency m)"

text \<open>The body of the \<open>try\<close> block of \<open>execute\<close>, steps 4 to 10 and the response.\<close>

definition checkout ::
  "'w collaborators \<Rightarrow> CreateOrderRequest \<Rightarrow> Cart \<Rightarrow> Product list \<Rightarrow> ('w, CreateOrderResponse) step" where
  "checkout C request cart reservedProducts =
     bindS (createOrderItems C (cartItems cart) reservedProducts) (\<lambda>orderItems.
     bindS (liftS (createAddress C (req_shippingAddress request))) (\<lambda>shippingAddr.
     bindS (case req_billingAddress request of
              Some b \<Rightarrow> liftS (createAddress C b)
            | None \<Rightarrow> returnS shippingAddr) (\<lambda>billingAddr.
     bindS (liftS (calculateOrderPricing orderItems shippingAddr (req_couponCode request)))
       (\<lambda>pricing.
     bindS (fresh C) (\<lambda>(oid, num, now).
     bindS (liftS (Order_create oid num now (req_userId request) orderItems shippingAddr
                     billingAddr (req_paymentMethod request)
                     (Some (pricingShippingFee pricing)) (Some (pricingTax pricing))
                     (Some (pricingDiscount pricing)) (req_notes request)
                     \<lparr>p_couponCode = None, p_promotionId = None, p_channel = None,
                      p_userAgent = None, p_ipAddress = None\<rparr>)) (\<lambda>order.
     bindS (orderRepository_save C order) (\<lambda>_.
     bindS (cartRepository_save C (Cart_clear cart)) (\<lambda>_.
     bindS (publishEvents C order (Cart_clear cart)) (\<lambda>_.
     returnS
       \<lparr>resp_orderId = orderId order, resp_orderNumber = orderNumber order,
        resp_totalAmount = money_json (pricingTotal pricing),
        resp_subtotal = money_json (pricingSubtotal pricing),
        resp_discountAmount = money_json (pricingDiscount pricing),
        resp_shippingFee = money_json (pricingShippingFee pricing),
        resp_taxAmount = money_json (pricingTax pricing)\<rparr>)))))))))"

text \<open>
  Steps 1 and 2 of \<open>execute\<close>: the cart, which must not be empty, and the reservation
  batch built from its items.
\<close>

definition prepare ::
  "'w collaborators \<Rightarrow> CreateOrderRequest \<Rightarrow> ('w, Cart \<times> InventoryReservationItem list) step" where
  "prepare C request =
     bindS (liftS (UserId_fromString C (req_userId request))) (\<lambda>userId.
     bindS (getCart C (req_cartId request) userId) (\<lambda>cart.
     if Cart_isEmpty cart then throwS CartEmpty
     else bindS (liftS (inventoryItems_of C (cartItems cart))) (\<lambda>inventoryItems.
          returnS (cart, inventoryItems))))"

text \<open>
  \<open>execute\<close>: the reservation is outside the \<open>try\<close>; the \<open>catch\<close> releases the batch and
  throws the error it caught.
\<close>

definition execute :: "'w collaborators \<Rightarrow> CreateOrderRequest \<Rightarrow> ('w, CreateOrderResponse) step" where
  "execute C request =
     bindS (prepare C request) (\<lambda>(cart, inventoryItems).
     bindS (inventoryService_reserveInventoryBatch C inventoryItems) (\<lambda>reservedProducts.
     tryCatch (checkout C request cart reservedProducts)
       (\<lambda>error. bindS (releaseReservedInventory C inventoryItems) (\<lambda>_. throwS error))))"


section \<open>Properties stated about the program\<close>

text \<open>
  The state in which each lifecycle method goes on: the negation of the conditions under
  which it throws.
\<close>

fun guard :: "lifecycle \<Rightarrow> Order \<Rightarrow> bool" where
  "guard (Pay _) p = (status p = OS_PENDING \<and> paymentStatus p = PS_PENDING)"
| "guard StartProcessing p = (status p = OS_PAID)"
| "guard (Ship _ _ _) p = (status p = OS_PROCESSING)"
| "guard Deliver p = (status p = OS_SHIPPED)"
| "guard Complete p = (status p = OS_DELIVERED)"
| "guard (Cancel _) p =
     (status p \<noteq> OS_SHIPPED \<and> status p \<noteq> OS_DELIVERED \<and> status p \<noteq> OS_COMPLETED)"
| "guard Refund p = (paymentStatus p = PS_COMPLETED)"

text \<open>
  The invariant of the aggregate. The sum and the total are the ones of the program's
  \<open>Money\<close> arithmetic, and equality is \<open>Money.equals\<close>.
\<close>

definition Order_invariant :: "Order \<Rightarrow> bool" where
  "Order_invariant p =
     ((case calculateSubtotalFromItems (items p) of
         Inl _ \<Rightarrow> False
       | Inr s \<Rightarrow> Money_equals (subtotal p) s)
      \<and> (case total_of (subtotal p) (discountAmount p) (shippingFee p) (taxAmount p) of
            Inl _ \<Rightarrow> False
          | Inr t \<Rightarrow> Money_equals (totalAmount p) t)
      \<and> (status p = OS_PAID \<longrightarrow> paymentStatus p = PS_COMPLETED)
      \<and> (status p = OS_SHIPPED \<longrightarrow> shippingStatus p = SS_SHIPPED))"

definition inventory_ok :: "Inventory \<Rightarrow> bool" where
  "inventory_ok v = (0 \<le> reservedQuantity v \<and> reservedQuantity v \<le> stockQuantity v)"

section \<open>Concrete inputs\<close>

definition line_item :: "string \<Rightarrow> real \<Rightarrow> real \<Rightarrow> OrderItem" where
  "line_item name price qty =
     \<lparr>productId = name, productName = name, sku = name, quantity = Fin qty,
      unitPrice = cny price, totalPrice = cny (price * qty), itemDiscountAmount = cny 0,
      productSnapshot = \<lparr>snapshotName = name, snapshotDescription = name, imageUrl = []\<rparr>\<rparr>"

definition address_in :: "string \<Rightarrow> Address" where
  "address_in prov =
     \<lparr>country = ''CN'', province = prov, city = ''City'', district = ''District'',
      street = ''1 Main Street'', zipCode = ''100000'', contactName = ''Li'',
      contactPhone = ''13800000000''\<rparr>"

text \<open>The cart of two items at 50 and one at 100.\<close>

definition cart_lines :: "OrderItem list" where
  "cart_lines = [line_item ''Cup'' 50 2, line_item ''Pot'' 100 1]"

definition no_metadata :: PartialMetadata where
  "no_metadata =
     \<lparr>p_couponCode = None, p_promotionId = None, p_channel = None, p_userAgent = None,
      p_ipAddress = None\<rparr>"

text \<open>
  The order that \<open>Order.create\<close> builds for that cart in Beijing with the pricing of the
  coupon \<open>SAVE10\<close>: subtotal 200, discount 20, shipping 8, no tax, total 188.
\<close>

definition placed_order :: Order where
  "placed_order =
     \<lparr>orderId = ''o-1'', orderNumber = ''20240101000001'', customerId = ''u-1'',
      items = cart_lines, shippingAddress = address_in Beijing,
      billingAddress = address_in Beijing, subtotal = cny 200, discountAmount = cny 20,
      shippingFee = cny 8, taxAmount = cny 0, totalAmount = cny 188, paymentMethod = ALIPAY,
      status = OS_PENDING, paymentStatus = PS_PENDING, shippingStatus = SS_PENDING,
      orderDate = 0, paidAt = None, shippedAt = None, deliveredAt = None, orderNotes = None,
      metadata = merge_metadata no_metadata,
      domainEvents =
        [OrderCreatedEvent ''o-1'' ''20240101000001'' ''u-1'' (cny 188)
           [(''Cup'', Fin 2, cny 50), (''Pot'', Fin 1, cny 100)]]\<rparr>"

definition paid_order :: Order where
  "paid_order = snd (Order_pay ''pay-1'' 1 placed_order)"

definition shipped_order :: Order where
  "shipped_order =
     snd (Order_ship ''s-1'' ''t-1'' ''carrier'' 3 (snd (Order_startProcessing paid_order)))"

definition refunded_order :: Order where
  "refunded_order = snd (Order_refund paid_order)"

definition stocked :: "string \<Rightarrow> int \<Rightarrow> Product" where
  "stocked key n =
     \<lparr>productKey = key, productStatus = ACTIVE,
      inventory = \<lparr>stockQuantity = n, reservedQuantity = 0, minStockLevel = 0\<rparr>,
      productEvents = []\<rparr>"

definition shelf :: ProductRepository where
  "shelf = [''cup'' \<mapsto> stocked ''cup'' 10, ''pot'' \<mapsto> stocked ''pot'' 3]"

definition batch :: "InventoryReservationItem list" where
  "batch =
     [\<lparr>ri_productId = ''cup'', ri_productName = ''Cup'', requestedQuantity = 2\<rparr>,
      \<lparr>ri_productId = ''pot'', ri_productName = ''Pot'', requestedQuantity = 5\<rparr>]"

definition shopper_cart :: Cart where
  "shopper_cart =
     \<lparr>cartId = ''c-1'', cartUserId = ''u-1'',
      cartItems = [\<lparr>ci_productId = ''cup'', ci_productName = ''Cup'', ci_quantity = 2\<rparr>,
                   \<lparr>ci_productId = ''pot'', ci_productName = ''Pot'', ci_quantity = 1\<rparr>],
      cartEvents = []\<rparr>"

definition shopper_request :: CreateOrderRequest where
  "shopper_request =
     \<lparr>req_userId = ''u-1'', req_cartId = None, req_shippingAddress = address_in Beijing,
      req_billingAddress = None, req_paymentMethod = ALIPAY, req_couponCode = Some ''SAVE10'',
      req_notes = None, req_currency = None\<rparr>"

text \<open>
  Collaborators over a world that is the log of what was done to it: the order
  repository refuses to save, and the inventory service refuses to release.
\<close>

definition failing_store :: "string list collaborators" where
  "failing_store =
     \<lparr>UserId_fromString = Inr, CartId_fromString = Inr, ProductId_fromString = Inr,
      cartRepository_findById = (\<lambda>_ w. (Inr (Some shopper_cart), w)),
      cartRepository_findByUserId = (\<lambda>_ w. (Inr (Some shopper_cart), w)),
      cartRepository_save = (\<lambda>_ w. (Inr (), w @ [''cart saved''])),
      orderRepository_save = (\<lambda>_ w. (Inl (External ''order store down''), w)),
      eventBus_publishAll = (\<lambda>_ w. (Inr (), w @ [''published''])),
      inventoryService_reserveInventoryBatch =
        (\<lambda>_ w. (Inr [stocked ''cup'' 10, stocked ''pot'' 3], w @ [''reserved''])),
      inventoryService_releaseReservedInventoryBatch =
        (\<lambda>_ w. (Inl (External ''release failed''), w @ [''release attempted''])),
      createOrderItems = (\<lambda>_ _ w. (Inr cart_lines, w)),
      createAddress = Inr,
      fresh = (\<lambda>w. (Inr (''o-1'', ''20240101000001'', 0), w)),
      console_error = (\<lambda>_ w. w @ [''release failure logged''])\<rparr>"

text \<open>The reservation batch that the command builds from the shopper's cart.\<close>

definition reservation :: "InventoryReservationItem list" where
  "reservation =
     [\<lparr>ri_productId = ''cup'', ri_productName = ''Cup'', requestedQuantity = 2\<rparr>,
      \<lparr>ri_productId = ''pot'', ri_productName = ''Pot'', requestedQuantity = 1\<rparr>]"

section \<open>Evaluation\<close>

text \<open>
  The defining equations that compute a number, a \<open>Money\<close> value and a pricing on concrete
  inputs.
\<close>

declare decimalPlaces.simps [simp del]

lemmas number_eval = lit_def round_double_def round_at_def of_parts_def floor_log_def rne_def
  ipow_def digits_ok_def digits_try_def digits_at_def decimalPlaces.simps js_sub_def js_gt_def
  js_eq_def js_le_def

lemmas money_eval = Money_new_def Money_validate_def Money_zero_def Money_add_def
  Money_subtract_def Money_multiply_def Money_divide_def Money_equals_def
  Money_isGreaterThan_def Money_isLessThan_def cny_def bindE_def

lemmas pricing_eval = calculateOrderPricing_def calculateSubtotal_def calculateDiscount_def
  applyDiscountRule_def cap_discount_def calculateShippingFee_def calculateTax_def total_of_def
  getDiscountRuleByCoupon_def getShippingRuleByAddress_def getTaxRuleByAddress_def
  calculateTotalWeight_def truthy_def line_item_def address_in_def cart_lines_def
  Beijing_def Shanghai_def Guangzhou_def Shenzhen_def

lemmas lifecycle_defs = Order_pay_def Order_startProcessing_def Order_ship_def
  Order_deliver_def Order_complete_def Order_cancel_def Order_refund_def

section \<open>Precision of money\<close>

lemma tenth: "lit (1 / 10) = Fin (3602879701896397 / 36028797018963968)"
  by (simp add: number_eval)

lemma fifth: "lit (1 / 5) = Fin (3602879701896397 / 18014398509481984)"
  by (simp add: number_eval)

lemma three_tenths: "lit (3 / 10) = Fin (5404319552844595 / 18014398509481984)"
  by (simp add: number_eval)

lemma sum_tenth_fifth:
  "js_add (lit (1 / 10)) (lit (1 / 5)) = Fin (1351079888211149 / 4503599627370496)"
  by (simp add: tenth fifth) (simp add: number_eval)

lemma places_sum: "decimalPlaces (Fin (1351079888211149 / 4503599627370496)) = 17"
  by (simp add: number_eval)

lemma places_tenth: "decimalPlaces (Fin (3602879701896397 / 36028797018963968)) = 1"
  by (simp add: number_eval)

lemma places_fifth: "decimalPlaces (Fin (3602879701896397 / 18014398509481984)) = 1"
  by (simp add: number_eval)

lemma places_three_tenths: "decimalPlaces (Fin (5404319552844595 / 18014398509481984)) = 1"
  by (simp add: number_eval)

text \<open>
  C10. Addition of \<open>Money\<close> is not total on valid values. \<open>0.1\<close> and \<open>0.2\<close> in the same
  currency are accepted by the constructor, each non-negative with one digit after the
  point; their floating-point sum prints with seventeen digits after the point, the
  constructor that \<open>add\<close> calls on it validates the precision without rounding, and
  \<open>add\<close> throws the precision error. \<open>multiply\<close> rounds to two decimals first: three
  times \<open>0.1\<close>, whose raw product is the same number, is the \<open>Money\<close> \<open>0.3\<close>.
\<close>

theorem Money_add_raises_precision_error:
  "Money_new (lit (1 / 10)) CNY = Inr \<lparr>amount = lit (1 / 10), currency = CNY\<rparr>
   \<and> Money_new (lit (2 / 10)) CNY = Inr \<lparr>amount = lit (2 / 10), currency = CNY\<rparr>
   \<and> decimalPlaces (js_add (lit (1 / 10)) (lit (2 / 10))) = 17
   \<and> Money_add \<lparr>amount = lit (1 / 10), currency = CNY\<rparr> \<lparr>amount = lit (2 / 10), currency = CNY\<rparr>
       = Inl AmountPrecision
   \<and> js_mul (lit (1 / 10)) (Fin 3) = js_add (lit (1 / 10)) (lit (2 / 10))
   \<and> Money_multiply \<lparr>amount = lit (1 / 10), currency = CNY\<rparr> (Fin 3)
       = Inr \<lparr>amount = lit (3 / 10), currency = CNY\<rparr>"
proof (intro conjI)
  show "Money_new (lit (1 / 10)) CNY = Inr \<lparr>amount = lit (1 / 10), currency = CNY\<rparr>"
    by (simp add: Money_new_def Money_validate_def tenth places_tenth)
  show "Money_new (lit (2 / 10)) CNY = Inr \<lparr>amount = lit (2 / 10), currency = CNY\<rparr>"
    by (simp add: Money_new_def Money_validate_def fifth places_fifth)
  show "decimalPlaces (js_add (lit (1 / 10)) (lit (2 / 10))) = 17"
    by (simp add: sum_tenth_fifth places_sum)
  show "Money_add \<lparr>amount = lit (1 / 10), currency = CNY\<rparr> \<lparr>amount = lit (2 / 10), currency = CNY\<rparr>
       = Inl AmountPrecision"
    by (simp add: Money_add_def Money_new_def Money_validate_def sum_tenth_fifth places_sum)
  show "js_mul (lit (1 / 10)) (Fin 3) = js_add (lit (1 / 10)) (lit (2 / 10))"
    by (simp add: sum_tenth_fifth) (simp add: tenth, simp add: number_eval)
  show "Money_multiply \<lparr>amount = lit (1 / 10), currency = CNY\<rparr> (Fin 3)
       = Inr \<lparr>amount = lit (3 / 10), currency = CNY\<rparr>"
    by (simp add: three_tenths tenth Money_multiply_def Money_new_def Money_validate_def)
       (simp add: number_eval)
qed

section \<open>The lifecycle of an order\<close>

lemma paid_order_eq:
  "paid_order =
     placed_order\<lparr>status := OS_PAID, paymentStatus := PS_COMPLETED, paidAt := Some 1,
       domainEvents :=
         domainEvents placed_order @ [OrderPaidEvent ''o-1'' ''pay-1'' (cny 188) 1]\<rparr>"
  by (simp add: paid_order_def Order_pay_def placed_order_def)

lemma paid_order_status: "status paid_order = OS_PAID" "paymentStatus paid_order = PS_COMPLETED"
  by (simp_all add: paid_order_eq)

lemma shipped_order_status:
  "status shipped_order = OS_SHIPPED" "shippingStatus shipped_order = SS_SHIPPED"
  by (simp_all add: shipped_order_def Order_ship_def Order_startProcessing_def paid_order_status)

lemma refunded_order_status:
  "status refunded_order = OS_REFUNDED" "paymentStatus refunded_order = PS_REFUNDED"
  by (simp_all add: refunded_order_def Order_refund_def paid_order_status)

text \<open>
  C9. A lifecycle method (\<open>pay\<close>, \<open>startProcessing\<close>, \<open>ship\<close>, \<open>deliver\<close>, \<open>complete\<close>,
  \<open>cancel\<close>, \<open>refund\<close>) invoked in a state where its precondition fails raises an error
  and leaves the order as it was, every field of it.
\<close>

theorem lifecycle_failure_leaves_order_unchanged:
  "\<not> guard m p \<Longrightarrow> \<exists>e. invoke m now p = (Inl e, p)"
  by (cases m) (auto simp: lifecycle_defs)

text \<open>
  \<open>ship\<close> on the pending order raises and leaves it pending; \<open>cancel\<close> on the shipped
  order raises and leaves it shipped.
\<close>

theorem lifecycle_failure_witness:
  "\<not> guard (Ship ''s-1'' ''t-1'' ''carrier'') placed_order
   \<and> invoke (Ship ''s-1'' ''t-1'' ''carrier'') 5 placed_order
       = (Inl OnlyProcessingCanShip, placed_order)
   \<and> \<not> guard (Cancel ''late'') shipped_order
   \<and> invoke (Cancel ''late'') 9 shipped_order = (Inl ShippedCannotCancel, shipped_order)"
proof -
  have g1: "\<not> guard (Ship ''s-1'' ''t-1'' ''carrier'') placed_order"
    by (simp add: placed_order_def)
  have g2: "\<not> guard (Cancel ''late'') shipped_order"
    by (simp add: shipped_order_status)
  from lifecycle_failure_leaves_order_unchanged [OF g1, of 5]
  obtain e1 where e1: "invoke (Ship ''s-1'' ''t-1'' ''carrier'') 5 placed_order = (Inl e1, placed_order)"
    by blast
  from lifecycle_failure_leaves_order_unchanged [OF g2, of 9]
  obtain e2 where e2: "invoke (Cancel ''late'') 9 shipped_order = (Inl e2, shipped_order)"
    by blast
  have "e1 = OnlyProcessingCanShip"
    using e1 by (simp add: Order_ship_def placed_order_def)
  moreover have "e2 = ShippedCannotCancel"
    using e2 by (simp add: Order_cancel_def shipped_order_status)
  ultimately show ?thesis using g1 g2 e1 e2 by simp
qed

text \<open>
  C4, as the claim states it, fails: \<open>cancel\<close> does not only take an order to CANCELLED
  from PENDING, PAID or PROCESSING. The placed order, paid and then refunded, has status
  REFUNDED, and \<open>cancel\<close> succeeds on it and sets CANCELLED.
\<close>

theorem cancel_from_refunded_counterexample:
  "fst (Order_pay ''pay-1'' 1 placed_order) = Inr ()
   \<and> fst (Order_refund paid_order) = Inr ()
   \<and> status refunded_order = OS_REFUNDED
   \<and> status refunded_order \<notin> {OS_PENDING, OS_PAID, OS_PROCESSING}
   \<and> fst (Order_cancel ''late'' 9 refunded_order) = Inr ()
   \<and> status (snd (Order_cancel ''late'' 9 refunded_order)) = OS_CANCELLED"
  by (simp add: Order_cancel_def Order_refund_def refunded_order_status paid_order_status)
     (simp add: Order_pay_def placed_order_def)

text \<open>
  C4, amended. \<open>cancel\<close> raises exactly when the status is SHIPPED, DELIVERED or
  COMPLETED; it succeeds from every other status, so an order reaches CANCELLED from
  PENDING, PAID, PROCESSING and also from REFUNDED. When it succeeds from PAID or
  PROCESSING it sets the payment status to REFUNDED, and in every success case it sets
  the status to CANCELLED.
\<close>

theorem Order_cancel_transitions:
  "((\<exists>e. fst (Order_cancel reason now p) = Inl e)
      \<longleftrightarrow> status p \<in> {OS_SHIPPED, OS_DELIVERED, OS_COMPLETED})
   \<and> (fst (Order_cancel reason now p) = Inr ()
        \<longrightarrow> status (snd (Order_cancel reason now p)) = OS_CANCELLED)
   \<and> (fst (Order_cancel reason now p) = Inr () \<and> status p \<in> {OS_PAID, OS_PROCESSING}
        \<longrightarrow> paymentStatus (snd (Order_cancel reason now p)) = PS_REFUNDED)
   \<and> (status p \<in> {OS_PENDING, OS_PAID, OS_PROCESSING, OS_REFUNDED}
        \<longrightarrow> fst (Order_cancel reason now p) = Inr ())"
  by (auto simp: Order_cancel_def Let_def)

text \<open>
  The paid order is cancelled and its payment refunded; the shipped order cannot be
  cancelled.
\<close>

theorem Order_cancel_transitions_witness:
  "status paid_order \<in> {OS_PAID, OS_PROCESSING}
   \<and> fst (Order_cancel ''changed my mind'' 2 paid_order) = Inr ()
   \<and> status (snd (Order_cancel ''changed my mind'' 2 paid_order)) = OS_CANCELLED
   \<and> paymentStatus (snd (Order_cancel ''changed my mind'' 2 paid_order)) = PS_REFUNDED
   \<and> status shipped_order \<in> {OS_SHIPPED, OS_DELIVERED, OS_COMPLETED}
   \<and> (\<exists>e. fst (Order_cancel ''late'' 9 shipped_order) = Inl e)"
proof -
  have a: "status paid_order \<in> {OS_PAID, OS_PROCESSING}"
    by (simp add: paid_order_status)
  have b: "status paid_order \<in> {OS_PENDING, OS_PAID, OS_PROCESSING, OS_REFUNDED}"
    by (simp add: paid_order_status)
  have c: "status shipped_order \<in> {OS_SHIPPED, OS_DELIVERED, OS_COMPLETED}"
    by (simp add: shipped_order_status)
  show ?thesis
    using Order_cancel_transitions [of "''changed my mind''" 2 paid_order]
      Order_cancel_transitions [of "''late''" 9 shipped_order] a b c
    by blast
qed

section \<open>The inventory invariant\<close>

lemma Inventory_new_ok: "Inventory_new q r m = Inr v \<Longrightarrow> inventory_ok v"
  by (auto simp: Inventory_new_def Inventory_validate_def bindE_def inventory_ok_def
      split: if_splits)

text \<open>
  C8. Every \<open>Inventory\<close> value that the constructor lets through has
  \<open>0 \<le> reservedQuantity \<le> quantity\<close>, and \<open>reserve\<close>, \<open>releaseReservation\<close>, \<open>deduct\<close> and
  \<open>addStock\<close> each either throw or return an \<open>Inventory\<close> with that property: the reserved
  stock never exceeds the total stock.
\<close>

theorem Inventory_invariant:
  "(Inventory_new q r m = Inr v \<longrightarrow> inventory_ok v)
   \<and> (Inventory_reserve v1 n1 = Inr w1 \<longrightarrow> inventory_ok w1)
   \<and> (Inventory_releaseReservation v2 n2 = Inr w2 \<longrightarrow> inventory_ok w2)
   \<and> (Inventory_deduct v3 n3 = Inr w3 \<longrightarrow> inventory_ok w3)
   \<and> (Inventory_addStock v4 n4 = Inr w4 \<longrightarrow> inventory_ok w4)"
  by (auto simp: Inventory_reserve_def Inventory_releaseReservation_def Inventory_deduct_def
      Inventory_addStock_def dest: Inventory_new_ok split: if_splits)

text \<open>Ten units with three reserved, and each operation on it by two units.\<close>

theorem Inventory_invariant_witness:
  "Inventory_new 10 3 0 = Inr \<lparr>stockQuantity = 10, reservedQuantity = 3, minStockLevel = 0\<rparr>
   \<and> inventory_ok \<lparr>stockQuantity = 10, reservedQuantity = 3, minStockLevel = 0\<rparr>
   \<and> Inventory_reserve \<lparr>stockQuantity = 10, reservedQuantity = 3, minStockLevel = 0\<rparr> 2
       = Inr \<lparr>stockQuantity = 10, reservedQuantity = 5, minStockLevel = 0\<rparr>
   \<and> inventory_ok \<lparr>stockQuantity = 10, reservedQuantity = 5, minStockLevel = 0\<rparr>
   \<and> Inventory_releaseReservation \<lparr>stockQuantity = 10, reservedQuantity = 3, minStockLevel = 0\<rparr> 2
       = Inr \<lparr>stockQuantity = 10, reservedQuantity = 1, minStockLevel = 0\<rparr>
   \<and> inventory_ok \<lparr>stockQuantity = 10, reservedQuantity = 1, minStockLevel = 0\<rparr>
   \<and> Inventory_deduct \<lparr>stockQuantity = 10, reservedQuantity = 3, minStockLevel = 0\<rparr> 2
       = Inr \<lparr>stockQuantity = 8, reservedQuantity = 1, minStockLevel = 0\<rparr>
   \<and> inventory_ok \<lparr>stockQuantity = 8, reservedQuantity = 1, minStockLevel = 0\<rparr>
   \<and> Inventory_addStock \<lparr>stockQuantity = 10, reservedQuantity = 3, minStockLevel = 0\<rparr> 2
       = Inr \<lparr>stockQuantity = 12, reservedQuantity = 3, minStockLevel = 0\<rparr>
   \<and> inventory_ok \<lparr>stockQuantity = 12, reservedQuantity = 3, minStockLevel = 0\<rparr>
   \<and> Inventory_reserve \<lparr>stockQuantity = 10, reservedQuantity = 3, minStockLevel = 0\<rparr> 8
       = Inl StockInsufficient"
proof -
  let ?v = "\<lparr>stockQuantity = 10, reservedQuantity = 3, minStockLevel = 0\<rparr>"
  have n: "Inventory_new 10 3 0 = Inr ?v"
    by (simp add: Inventory_new_def Inventory_validate_def bindE_def)
  have r: "Inventory_reserve ?v 2
       = Inr \<lparr>stockQuantity = 10, reservedQuantity = 5, minStockLevel = 0\<rparr>"
    by (simp add: Inventory_reserve_def canReserve_def getAvailableQuantity_def
        Inventory_new_def Inventory_validate_def bindE_def)
  have l: "Inventory_releaseReservation ?v 2
       = Inr \<lparr>stockQuantity = 10, reservedQuantity = 1, minStockLevel = 0\<rparr>"
    by (simp add: Inventory_releaseReservation_def Inventory_new_def Inventory_validate_def
        bindE_def)
  have d: "Inventory_deduct ?v 2
       = Inr \<lparr>stockQuantity = 8, reservedQuantity = 1, minStockLevel = 0\<rparr>"
    by (simp add: Inventory_deduct_def Inventory_new_def Inventory_validate_def bindE_def)
  have a: "Inventory_addStock ?v 2
       = Inr \<lparr>stockQuantity = 12, reservedQuantity = 3, minStockLevel = 0\<rparr>"
    by (simp add: Inventory_addStock_def Inventory_new_def Inventory_validate_def bindE_def)
  have x: "Inventory_reserve ?v 8 = Inl StockInsufficient"
    by (simp add: Inventory_reserve_def canReserve_def getAvailableQuantity_def)
  show ?thesis
    using Inventory_invariant [of 10 3 0 ?v ?v 2 _ ?v 2 _ ?v 2 _ ?v 2] n r l d a x
    by simp
qed

section \<open>Validation of a reservation batch\<close>

lemma status_never_ACTIVE: "ProductStatus_value st \<noteq> ''ACTIVE''"
  by (cases st) simp_all

text \<open>
  Whenever the validation reports an invalid item, \<open>reserveInventoryBatch\<close> throws the
  aggregated error, with one line per invalid item, and the repository is as it was.
\<close>

lemma reserveInventoryBatch_rejects:
  "\<not> fst (validateInventoryAvailability repo its) \<Longrightarrow>
     reserveInventoryBatch its repo =
       (Inl (InventoryValidationFailed
               (map (\<lambda>i. (inv_productName i, inv_reason i))
                  (snd (validateInventoryAvailability repo its)))), repo)"
  by (cases "validateInventoryAvailability repo its") (simp add: reserveInventoryBatch_def)

text \<open>
  C6 on a batch of two products that are both ACTIVE: ten cups in stock and two asked
  for, three pots in stock and five asked for. Only the pots fail, for want of stock. The
  service compares the status, whose run-time value is \<open>'active'\<close>, with \<open>'ACTIVE'\<close>, so it
  reports both products as taken off the shelf; nothing is reserved or saved.
\<close>

theorem reserveInventoryBatch_reports_active_products:
  "shelf ''cup'' = Some (stocked ''cup'' 10)
   \<and> shelf ''pot'' = Some (stocked ''pot'' 3)
   \<and> productStatus (stocked ''cup'' 10) = ACTIVE
   \<and> getAvailable (inventory (stocked ''cup'' 10)) = 10
   \<and> getAvailable (inventory (stocked ''pot'' 3)) = 3
   \<and> reserveInventoryBatch batch shelf =
       (Inl (InventoryValidationFailed [(''Cup'', ProductOffShelf), (''Pot'', ProductOffShelf)]),
        shelf)"
  by (simp add: reserveInventoryBatch_def validateInventoryAvailability_def validate_item_def
      batch_def shelf_def stocked_def getAvailable_def getAvailableQuantity_def)

section \<open>Construction of an order\<close>

lemma Order_validate_invariant: "Order_validate p = Inr () \<Longrightarrow> Order_invariant p"
  by (auto simp: Order_validate_def Order_invariant_def bindE_def split: if_splits sum.splits)

lemma Order_validate_rejects: "\<not> Order_invariant p \<Longrightarrow> \<exists>e. Order_validate p = Inl e"
  by (auto simp: Order_validate_def Order_invariant_def bindE_def split: if_splits sum.splits)

lemma Order_invariant_cong:
  "Order_invariant (p\<lparr>domainEvents := ev\<rparr>) = Order_invariant p"
  "Order_invariant (p\<lparr>orderId := oid\<rparr>) = Order_invariant p"
  by (simp_all add: Order_invariant_def cong: sum.case_cong)

lemma Order_new_invariant: "Order_new p = Inr q \<Longrightarrow> Order_invariant q"
  using Order_validate_invariant [of "p\<lparr>domainEvents := []\<rparr>"]
  by (auto simp: Order_new_def bindE_def split: sum.splits)

lemma Order_new_rejects: "\<not> Order_invariant p \<Longrightarrow> \<exists>e. Order_new p = Inl e"
  using Order_validate_rejects [of "p\<lparr>domainEvents := []\<rparr>"]
  by (auto simp: Order_new_def bindE_def Order_invariant_cong split: sum.splits)

text \<open>
  C1. Every order that \<open>create\<close> or \<open>reconstitute\<close> returns satisfies the invariant of the
  aggregate: the subtotal equals the sum of the items' total prices, the total equals
  subtotal - discount + shipping + tax, status PAID implies payment status COMPLETED and
  status SHIPPED implies shipping status SHIPPED; properties that violate one of these
  make the construction raise an error.
\<close>

theorem Order_construction_invariant:
  "(Order_reconstitute props oid = Inr q \<longrightarrow> Order_invariant q)
   \<and> (Order_create oid' num now cust its shipTo billTo method shipOpt taxOpt discOpt note meta
         = Inr q' \<longrightarrow> Order_invariant q')
   \<and> (\<not> Order_invariant props' \<longrightarrow> (\<exists>e. Order_reconstitute props' oid = Inl e))"
proof (intro conjI impI)
  assume "Order_reconstitute props oid = Inr q"
  then show "Order_invariant q"
    by (auto simp: Order_reconstitute_def dest: Order_new_invariant)
next
  assume "Order_create oid' num now cust its shipTo billTo method shipOpt taxOpt discOpt note meta
            = Inr q'"
  then show "Order_invariant q'"
    by (auto simp: Order_create_def bindE_def Order_invariant_cong
        split: sum.splits if_splits dest!: Order_new_invariant)
next
  assume "\<not> Order_invariant props'"
  then show "\<exists>e. Order_reconstitute props' oid = Inl e"
    using Order_new_rejects [of "props'\<lparr>orderId := oid\<rparr>"]
    by (simp add: Order_reconstitute_def Order_invariant_cong)
qed

lemma cart_lines_nonempty: "cart_lines \<noteq> []"
  by (simp add: cart_lines_def)

lemma cart_lines_subtotal: "calculateSubtotalFromItems cart_lines = Inr (cny 200)"
  by (simp add: calculateSubtotalFromItems_def cart_lines_def line_item_def money_eval number_eval)

lemma placed_total: "total_of (cny 200) (cny 20) (cny 8) (cny 0) = Inr (cny 188)"
  by (simp add: total_of_def money_eval number_eval)

lemma wrong_total: "total_of (cny 199) (cny 20) (cny 8) (cny 0) = Inr (cny 187)"
  by (simp add: total_of_def money_eval number_eval)

lemma placed_order_created:
  "Order_create ''o-1'' ''20240101000001'' 0 ''u-1'' cart_lines (address_in Beijing)
     (address_in Beijing) ALIPAY (Some (cny 8)) (Some (cny 0)) (Some (cny 20)) None no_metadata
   = Inr placed_order"
  by (simp add: Order_create_def default_money_def cart_lines_subtotal placed_total bindE_def
        Order_new_def Order_validate_def Money_equals_def js_eq_def placed_order_def
        cart_lines_nonempty)
     (simp add: cart_lines_def line_item_def cny_def)

lemma paid_order_reconstituted:
  "Order_reconstitute paid_order ''o-1'' = Inr (paid_order\<lparr>domainEvents := []\<rparr>)"
  by (simp add: Order_reconstitute_def Order_new_def Order_validate_def paid_order_eq
        placed_order_def cart_lines_subtotal placed_total bindE_def Money_equals_def js_eq_def
        cart_lines_nonempty)
     (simp add: cny_def)

lemma mispriced_rejected:
  "Order_reconstitute (placed_order\<lparr>subtotal := cny 199\<rparr>) ''o-1'' = Inl SubtotalMismatch"
  by (simp add: Order_reconstitute_def Order_new_def Order_validate_def
        placed_order_def cart_lines_subtotal bindE_def Money_equals_def js_eq_def
        cart_lines_nonempty)
     (simp add: cny_def)

lemma mispriced_invariant: "\<not> Order_invariant (placed_order\<lparr>subtotal := cny 199\<rparr>)"
  by (simp add: Order_invariant_def placed_order_def cart_lines_subtotal Money_equals_def
      js_eq_def cny_def)

text \<open>
  The placed order is what \<open>create\<close> returns for the cart, the paid order passes
  \<open>reconstitute\<close>, and the placed order with a subtotal of 199 for items that sum to 200
  is rejected.
\<close>

theorem Order_construction_invariant_witness:
  "Order_create ''o-1'' ''20240101000001'' 0 ''u-1'' cart_lines (address_in Beijing)
     (address_in Beijing) ALIPAY (Some (cny 8)) (Some (cny 0)) (Some (cny 20)) None no_metadata
     = Inr placed_order
   \<and> Order_invariant placed_order
   \<and> Order_reconstitute paid_order ''o-1'' = Inr (paid_order\<lparr>domainEvents := []\<rparr>)
   \<and> status (paid_order\<lparr>domainEvents := []\<rparr>) = OS_PAID
   \<and> Order_invariant (paid_order\<lparr>domainEvents := []\<rparr>)
   \<and> \<not> Order_invariant (placed_order\<lparr>subtotal := cny 199\<rparr>)
   \<and> Order_reconstitute (placed_order\<lparr>subtotal := cny 199\<rparr>) ''o-1'' = Inl SubtotalMismatch"
proof -
  note inst = Order_construction_invariant
    [of paid_order "''o-1''" "paid_order\<lparr>domainEvents := []\<rparr>"
        "''o-1''" "''20240101000001''" 0 "''u-1''" cart_lines "address_in Beijing"
        "address_in Beijing" ALIPAY "Some (cny 8)" "Some (cny 0)" "Some (cny 20)" None
        no_metadata placed_order "placed_order\<lparr>subtotal := cny 199\<rparr>"]
  have "Order_invariant placed_order"
    using inst placed_order_created by blast
  moreover have "Order_invariant (paid_order\<lparr>domainEvents := []\<rparr>)"
    using inst paid_order_reconstituted by blast
  moreover have "status (paid_order\<lparr>domainEvents := []\<rparr>) = OS_PAID"
    by (simp add: paid_order_eq)
  ultimately show ?thesis
    using placed_order_created paid_order_reconstituted mispriced_invariant mispriced_rejected
    by simp
qed

section \<open>Compensation in the checkout\<close>

lemma releaseReservedInventory_returns:
  "fst (releaseReservedInventory C its w) = Inr ()"
  by (auto simp: releaseReservedInventory_def tryCatch_def split: prod.splits sum.splits)

text \<open>
  C5. When the inventory has been reserved and a later step of the checkout throws (the
  building of the items, the pricing, the construction of the order, the saving of order
  or cart, the publication of the events), \<open>execute\<close> calls \<open>releaseReservedInventory\<close> for
  the reserved batch and then throws the error it caught, unchanged. An error thrown by
  the release is written to the console and swallowed: \<open>releaseReservedInventory\<close> always
  returns normally.
\<close>

theorem execute_compensates_and_rethrows:
  assumes "prepare C request w0 = (Inr (cart, inventoryItems), w1)"
    and "inventoryService_reserveInventoryBatch C inventoryItems w1 = (Inr reserved, w2)"
    and "checkout C request cart reserved w2 = (Inl e, w3)"
  shows "execute C request w0 = (Inl e, snd (releaseReservedInventory C inventoryItems w3))
     \<and> fst (releaseReservedInventory C inventoryItems w3) = Inr ()
     \<and> releaseReservedInventory C inventoryItems w3 =
         (case inventoryService_releaseReservedInventoryBatch C
                 (map (\<lambda>item. (ri_productId item, requestedQuantity item)) inventoryItems) w3 of
            (Inl err, w4) \<Rightarrow> (Inr (), console_error C err w4)
          | (Inr u, w4) \<Rightarrow> (Inr (), w4))"
proof -
  have r: "fst (releaseReservedInventory C inventoryItems w3) = Inr ()"
    by (rule releaseReservedInventory_returns)
  then obtain w4 where w4: "releaseReservedInventory C inventoryItems w3 = (Inr (), w4)"
    by (cases "releaseReservedInventory C inventoryItems w3") auto
  have "execute C request w0 = (Inl e, w4)"
    using assms w4 by (simp add: execute_def bindS_def tryCatch_def throwS_def)
  moreover have "releaseReservedInventory C inventoryItems w3 =
         (case inventoryService_releaseReservedInventoryBatch C
                 (map (\<lambda>item. (ri_productId item, requestedQuantity item)) inventoryItems) w3 of
            (Inl err, w4) \<Rightarrow> (Inr (), console_error C err w4)
          | (Inr u, w4) \<Rightarrow> (Inr (), w4))"
    by (auto simp: releaseReservedInventory_def tryCatch_def split: prod.splits sum.splits)
  moreover have "snd (releaseReservedInventory C inventoryItems w3) = w4"
    using w4 by simp
  ultimately show ?thesis using r by (intro conjI) simp_all
qed

lemma cart_lines_pricing:
  "calculateOrderPricing cart_lines (address_in Beijing) (Some ''SAVE10'')
   = Inr \<lparr>pricingSubtotal = cny 200, pricingDiscount = cny 20, pricingShippingFee = cny 8,
          pricingTax = cny 0, pricingTotal = cny 188\<rparr>"
  by (simp add: pricing_eval money_eval number_eval)

lemma failing_store_prepare:
  "prepare failing_store shopper_request [] = (Inr (shopper_cart, reservation), [])"
  by (simp add: prepare_def getCart_def bindS_def liftS_def returnS_def throwS_def
      failing_store_def shopper_request_def shopper_cart_def Cart_isEmpty_def bindE_def
      reservation_def)

lemma failing_store_reserve:
  "inventoryService_reserveInventoryBatch failing_store reservation []
   = (Inr [stocked ''cup'' 10, stocked ''pot'' 3], [''reserved''])"
  by (simp add: failing_store_def)

lemma failing_store_checkout:
  "checkout failing_store shopper_request shopper_cart [stocked ''cup'' 10, stocked ''pot'' 3]
     [''reserved'']
   = (Inl (External ''order store down''), [''reserved''])"
proof -
  have c: "Order_create ''o-1'' ''20240101000001'' 0 ''u-1'' cart_lines (address_in Beijing)
     (address_in Beijing) ALIPAY (Some (cny 8)) (Some (cny 0)) (Some (cny 20)) None
     \<lparr>p_couponCode = None, p_promotionId = None, p_channel = None, p_userAgent = None,
      p_ipAddress = None\<rparr> = Inr placed_order"
    using placed_order_created by (simp add: no_metadata_def)
  show ?thesis
    by (simp add: checkout_def bindS_def liftS_def returnS_def failing_store_def
        shopper_request_def cart_lines_pricing c)
qed

text \<open>
  A checkout in which the order repository refuses to save and the inventory service
  then refuses to release: the caller gets the repository's error, and the world shows the
  reservation, the attempted release and its logged failure.
\<close>

theorem execute_compensates_and_rethrows_witness:
  "prepare failing_store shopper_request [] = (Inr (shopper_cart, reservation), [])
   \<and> inventoryService_reserveInventoryBatch failing_store reservation []
       = (Inr [stocked ''cup'' 10, stocked ''pot'' 3], [''reserved''])
   \<and> checkout failing_store shopper_request shopper_cart
        [stocked ''cup'' 10, stocked ''pot'' 3] [''reserved'']
       = (Inl (External ''order store down''), [''reserved''])
   \<and> execute failing_store shopper_request []
       = (Inl (External ''order store down''),
          [''reserved'', ''release attempted'', ''release failure logged''])"
proof -
  have "releaseReservedInventory failing_store reservation [''reserved'']
        = (Inr (), [''reserved'', ''release attempted'', ''release failure logged''])"
    by (simp add: releaseReservedInventory_def tryCatch_def failing_store_def)
  then show ?thesis
    using execute_compensates_and_rethrows
      [OF failing_store_prepare failing_store_reserve failing_store_checkout]
      failing_store_prepare failing_store_reserve failing_store_checkout
    by simp
qed

section \<open>Pricing\<close>

lemma Money_zero_eq: "Money_zero c = Inr \<lparr>amount = Fin 0, currency = c\<rparr>"
  by (simp add: Money_zero_def Money_new_def Money_validate_def decimalPlaces.simps)

lemma bindE_Inr: "bindE x f = Inr y \<Longrightarrow> \<exists>v. x = Inr v \<and> f v = Inr y"
  by (cases x) (simp_all add: bindE_def)

lemma Money_new_amount: "Money_new a c = Inr m \<Longrightarrow> amount m = a \<and> currency m = c"
  by (auto simp: Money_new_def Let_def split: option.splits)

lemma Money_add_amount:
  "Money_add a b = Inr m \<Longrightarrow> amount m = js_add (amount a) (amount b)"
  by (auto simp: Money_add_def split: if_splits dest: Money_new_amount)

lemma calculateShippingFee_cases:
  assumes fee: "calculateShippingFee its address sub disc = Inr fee"
    and rule: "getShippingRuleByAddress address = Some rule"
    and thr: "freeShippingThreshold rule = Some t"
  shows "\<exists>after. Money_subtract sub disc = Inr after
     \<and> (js_gt (amount after) (amount t)
          \<longrightarrow> fee = \<lparr>amount = Fin 0, currency = currency sub\<rparr>)
     \<and> (\<not> js_gt (amount after) (amount t)
          \<longrightarrow> (case weightMultiplier rule of
                 None \<Rightarrow> fee = baseRate rule
               | Some w \<Rightarrow>
                   amount fee
                     = js_add (amount (baseRate rule)) (js_mul (calculateTotalWeight its) w)))"
proof -
  from fee rule obtain after where sub: "Money_subtract sub disc = Inr after"
    by (auto simp: calculateShippingFee_def dest!: bindE_Inr)
  from fee rule thr sub obtain free where
    free: "Money_isGreaterThan after t = Inr free"
    and rest: "(if free then Money_zero (currency sub)
          else case weightMultiplier rule of
                 None \<Rightarrow> Inr (baseRate rule)
               | Some w \<Rightarrow>
                   if truthy w then
                     bindE (Money_new (js_mul (calculateTotalWeight its) w) (currency sub))
                       (\<lambda>weightCharge. Money_add (baseRate rule) weightCharge)
                   else Inr (baseRate rule)) = Inr fee"
    by (auto simp: calculateShippingFee_def bindE_def split: sum.splits)
  from free have fr: "free = js_gt (amount after) (amount t)"
    by (auto simp: Money_isGreaterThan_def split: if_splits)
  have w: "weightMultiplier rule = None \<or> weightMultiplier rule = Some (Fin 2)"
    using rule by (auto simp: getShippingRuleByAddress_def split: if_splits)
  show ?thesis
  proof (cases free)
    case True
    with rest fr sub show ?thesis by (auto simp: Money_zero_eq)
  next
    case False
    with rest fr sub w show ?thesis
      by (auto simp: truthy_def dest!: bindE_Inr Money_new_amount Money_add_amount)
  qed
qed

text \<open>
  C3, as the claim states it, fails at the threshold itself. An order of 199 without a
  coupon, to Beijing, resolves to the rule with base rate 8 and threshold 199; subtotal
  less discount is 199, which is at least the threshold, and the shipping fee is 8, not
  zero.
\<close>

theorem shipping_at_threshold_counterexample:
  "getShippingRuleByAddress (address_in Beijing)
     = Some \<lparr>baseRate = cny 8, freeShippingThreshold = Some (cny 199), weightMultiplier = None\<rparr>
   \<and> calculateOrderPricing [line_item ''Pot'' 199 1] (address_in Beijing) None
       = Inr \<lparr>pricingSubtotal = cny 199, pricingDiscount = cny 0, pricingShippingFee = cny 8,
              pricingTax = cny 0, pricingTotal = cny 207\<rparr>
   \<and> Money_subtract (cny 199) (cny 0) = Inr (cny 199)
   \<and> (199::real) \<ge> 199"
  by (simp add: pricing_eval money_eval number_eval)

text \<open>
  C3, amended. In \<open>calculateOrderPricing\<close>, for an address that resolves to a rule with a
  free-shipping threshold, the shipping fee is zero whenever subtotal less discount is
  strictly greater than the threshold, and otherwise it is the base rate of the region
  when the rule has no weight multiplier, and the base rate plus the multiplier times the
  total quantity of the items when it has one.
\<close>

theorem shipping_fee_rule:
  assumes "calculateOrderPricing its address coupon = Inr pricing"
    and "getShippingRuleByAddress address = Some rule"
    and "freeShippingThreshold rule = Some t"
  shows "\<exists>after. Money_subtract (pricingSubtotal pricing) (pricingDiscount pricing) = Inr after
     \<and> (js_gt (amount after) (amount t)
          \<longrightarrow> pricingShippingFee pricing
                = \<lparr>amount = Fin 0, currency = currency (pricingSubtotal pricing)\<rparr>)
     \<and> (\<not> js_gt (amount after) (amount t)
          \<longrightarrow> (case weightMultiplier rule of
                 None \<Rightarrow> pricingShippingFee pricing = baseRate rule
               | Some w \<Rightarrow>
                   amount (pricingShippingFee pricing)
                     = js_add (amount (baseRate rule)) (js_mul (calculateTotalWeight its) w)))"
proof -
  from assms(1) have
    "calculateShippingFee its address (pricingSubtotal pricing) (pricingDiscount pricing)
       = Inr (pricingShippingFee pricing)"
    by (auto simp: calculateOrderPricing_def split: if_splits dest!: bindE_Inr)
  from calculateShippingFee_cases [OF this assms(2) assms(3)] show ?thesis .
qed

lemma elsewhere_rule:
  "getShippingRuleByAddress (address_in ''Hebei'')
     = Some \<lparr>baseRate = cny 12, freeShippingThreshold = Some (cny 299),
             weightMultiplier = Some (Fin 2)\<rparr>"
  by (simp add: getShippingRuleByAddress_def address_in_def Beijing_def Shanghai_def
      Guangzhou_def Shenzhen_def)

lemma beijing_rule:
  "getShippingRuleByAddress (address_in Beijing)
     = Some \<lparr>baseRate = cny 8, freeShippingThreshold = Some (cny 199), weightMultiplier = None\<rparr>"
  by (simp add: getShippingRuleByAddress_def address_in_def)

lemma elsewhere_pricing:
  "calculateOrderPricing cart_lines (address_in ''Hebei'') (Some ''SAVE10'')
   = Inr \<lparr>pricingSubtotal = cny 200, pricingDiscount = cny 20, pricingShippingFee = cny 18,
          pricingTax = cny 0, pricingTotal = cny 198\<rparr>"
  by (simp add: pricing_eval money_eval number_eval)

lemma price_without_coupon:
  "calculateOrderPricing [line_item ''Pot'' 210 1] (address_in Beijing) None
   = Inr \<lparr>pricingSubtotal = cny 210, pricingDiscount = cny 0, pricingShippingFee = cny 0,
          pricingTax = cny 0, pricingTotal = cny 210\<rparr>"
  by (simp add: pricing_eval money_eval number_eval)

lemma price_WELCOME20:
  "calculateOrderPricing [line_item ''Pot'' 210 1] (address_in Beijing) (Some ''WELCOME20'')
   = Inr \<lparr>pricingSubtotal = cny 210, pricingDiscount = cny 20, pricingShippingFee = cny 8,
          pricingTax = cny 0, pricingTotal = cny 198\<rparr>"
  by (simp add: pricing_eval money_eval number_eval)

lemma price_SAVE10:
  "calculateOrderPricing [line_item ''Pot'' 210 1] (address_in Beijing) (Some ''SAVE10'')
   = Inr \<lparr>pricingSubtotal = cny 210, pricingDiscount = cny 21, pricingShippingFee = cny 8,
          pricingTax = cny 0, pricingTotal = cny 197\<rparr>"
  by (simp add: pricing_eval money_eval number_eval)

text \<open>
  The cart of three units priced with \<open>SAVE10\<close> outside the four cities: 180 is not greater
  than 299, and the fee is 12 + 3 * 2 = 18. An order of 210 to Beijing: 210 is greater than
  199, and the fee is zero.
\<close>

theorem shipping_fee_rule_witness:
  "calculateOrderPricing cart_lines (address_in ''Hebei'') (Some ''SAVE10'')
     = Inr \<lparr>pricingSubtotal = cny 200, pricingDiscount = cny 20, pricingShippingFee = cny 18,
            pricingTax = cny 0, pricingTotal = cny 198\<rparr>
   \<and> Money_subtract (cny 200) (cny 20) = Inr (cny 180)
   \<and> \<not> js_gt (Fin 180) (Fin 299)
   \<and> Fin 18 = js_add (Fin 12) (js_mul (calculateTotalWeight cart_lines) (Fin 2))
   \<and> calculateOrderPricing [line_item ''Pot'' 210 1] (address_in Beijing) None
       = Inr \<lparr>pricingSubtotal = cny 210, pricingDiscount = cny 0, pricingShippingFee = cny 0,
              pricingTax = cny 0, pricingTotal = cny 210\<rparr>
   \<and> Money_subtract (cny 210) (cny 0) = Inr (cny 210)
   \<and> js_gt (Fin 210) (Fin 199)"
proof -
  have s1: "Money_subtract (cny 200) (cny 20) = Inr (cny 180)"
    by (simp add: money_eval number_eval)
  have s2: "Money_subtract (cny 210) (cny 0) = Inr (cny 210)"
    by (simp add: money_eval number_eval)
  have g1: "\<not> js_gt (Fin 180) (Fin 299)" and g2: "js_gt (Fin 210) (Fin 199)"
    by (simp_all add: js_gt_def)
  have "Fin 18 = js_add (Fin 12) (js_mul (calculateTotalWeight cart_lines) (Fin 2))"
    using shipping_fee_rule [OF elsewhere_pricing elsewhere_rule] s1 g1
    by (simp add: cny_def)
  moreover have "cny 0 = \<lparr>amount = Fin 0, currency = CNY\<rparr>"
    using shipping_fee_rule [OF price_without_coupon beijing_rule] s2 g2
    by (simp add: cny_def)
  ultimately show ?thesis
    using elsewhere_pricing price_without_coupon s1 s2 g1 g2 by simp
qed

text \<open>
  C2, as the claim states it, fails: there is no tolerance. The items sum to 2.00; the
  breakdown gives 2.01 as subtotal and as total, with no discount, shipping or tax. The
  supplied subtotal differs from the recomputed one by less than 0.01, the supplied total
  is the recomputed total, every component is non-negative and the discount is not above
  the subtotal; \<open>validateOrderPricing\<close> returns invalid, with the subtotal message.
\<close>

theorem validateOrderPricing_tolerance_counterexample:
  "calculateSubtotal [line_item ''Pot'' 2 1] = Inr (cny 2)
   \<and> lit (201 / 100) = Fin (1131529406376837 / 562949953421312)
   \<and> \<bar>1131529406376837 / 562949953421312 - 2\<bar> \<le> (1 / 100 :: real)
   \<and> total_of \<lparr>amount = lit (201 / 100), currency = CNY\<rparr> (cny 0) (cny 0) (cny 0)
       = Inr \<lparr>amount = lit (201 / 100), currency = CNY\<rparr>
   \<and> validateOrderPricing [line_item ''Pot'' 2 1]
        \<lparr>pricingSubtotal = \<lparr>amount = lit (201 / 100), currency = CNY\<rparr>,
         pricingDiscount = cny 0, pricingShippingFee = cny 0, pricingTax = cny 0,
         pricingTotal = \<lparr>amount = lit (201 / 100), currency = CNY\<rparr>\<rparr>
       = Inr (False, [SubtotalWrong (Fin 2) (lit (201 / 100))])"
  by (simp add: validateOrderPricing_def pricing_eval money_eval number_eval)

text \<open>
  C2, amended. Whenever \<open>validateOrderPricing\<close> returns a result, it returns valid exactly
  when the supplied subtotal and the supplied total are equal, by \<open>Money.equals\<close> and with
  no tolerance, to the independently recomputed values, the discount is not greater than
  the subtotal and the four components are non-negative; otherwise it returns invalid,
  with one discrepancy message per violated check, in the order of the checks.
\<close>

theorem validateOrderPricing_exact:
  assumes "validateOrderPricing its pricing = Inr (valid, errors)"
  shows "\<exists>s t. calculateSubtotal its = Inr s
     \<and> total_of (pricingSubtotal pricing) (pricingDiscount pricing)
          (pricingShippingFee pricing) (pricingTax pricing) = Inr t
     \<and> valid = (Money_equals (pricingSubtotal pricing) s
                \<and> Money_equals (pricingTotal pricing) t
                \<and> \<not> js_gt (amount (pricingDiscount pricing)) (amount (pricingSubtotal pricing))
                \<and> \<not> js_lt (amount (pricingSubtotal pricing)) (Fin 0)
                \<and> \<not> js_lt (amount (pricingDiscount pricing)) (Fin 0)
                \<and> \<not> js_lt (amount (pricingShippingFee pricing)) (Fin 0)
                \<and> \<not> js_lt (amount (pricingTax pricing)) (Fin 0))
     \<and> errors =
         (if \<not> Money_equals (pricingSubtotal pricing) s
          then [SubtotalWrong (amount s) (amount (pricingSubtotal pricing))] else [])
         @ (if \<not> Money_equals (pricingTotal pricing) t
            then [TotalWrong (amount t) (amount (pricingTotal pricing))] else [])
         @ (if js_gt (amount (pricingDiscount pricing)) (amount (pricingSubtotal pricing))
            then [DiscountAboveSubtotal] else [])
         @ (if js_lt (amount (pricingSubtotal pricing)) (Fin 0) then [SubtotalBelowZero] else [])
         @ (if js_lt (amount (pricingDiscount pricing)) (Fin 0) then [DiscountBelowZero] else [])
         @ (if js_lt (amount (pricingShippingFee pricing)) (Fin 0) then [ShippingFeeBelowZero]
            else [])
         @ (if js_lt (amount (pricingTax pricing)) (Fin 0) then [TaxBelowZero] else [])"
proof -
  from assms obtain s t above where
    s: "calculateSubtotal its = Inr s"
    and t: "total_of (pricingSubtotal pricing) (pricingDiscount pricing)
              (pricingShippingFee pricing) (pricingTax pricing) = Inr t"
    and a: "Money_isGreaterThan (pricingDiscount pricing) (pricingSubtotal pricing) = Inr above"
    by (auto simp: validateOrderPricing_def dest!: bindE_Inr)
  from a have above:
    "above = js_gt (amount (pricingDiscount pricing)) (amount (pricingSubtotal pricing))"
    by (auto simp: Money_isGreaterThan_def split: if_splits)
  from assms s t a above show ?thesis
    by (simp add: validateOrderPricing_def bindE_def Let_def) (auto split: if_splits)
qed

text \<open>
  A breakdown that agrees with the items is valid; the breakdown with 2.01 for items that
  sum to 2.00 is not.
\<close>

theorem validateOrderPricing_exact_witness:
  "validateOrderPricing [line_item ''Pot'' 2 1]
     \<lparr>pricingSubtotal = cny 2, pricingDiscount = cny 0, pricingShippingFee = cny 0,
      pricingTax = cny 0, pricingTotal = cny 2\<rparr> = Inr (True, [])
   \<and> calculateSubtotal [line_item ''Pot'' 2 1] = Inr (cny 2)
   \<and> total_of (cny 2) (cny 0) (cny 0) (cny 0) = Inr (cny 2)
   \<and> Money_equals (cny 2) (cny 2)"
proof -
  have v: "validateOrderPricing [line_item ''Pot'' 2 1]
     \<lparr>pricingSubtotal = cny 2, pricingDiscount = cny 0, pricingShippingFee = cny 0,
      pricingTax = cny 0, pricingTotal = cny 2\<rparr> = Inr (True, [])"
    by (simp add: validateOrderPricing_def pricing_eval money_eval number_eval)
  have s: "calculateSubtotal [line_item ''Pot'' 2 1] = Inr (cny 2)"
    by (simp add: pricing_eval money_eval number_eval)
  have t: "total_of (cny 2) (cny 0) (cny 0) (cny 0) = Inr (cny 2)"
    by (simp add: pricing_eval money_eval number_eval)
  from validateOrderPricing_exact [OF v] s t have "Money_equals (cny 2) (cny 2)"
    by simp
  with v s t show ?thesis by simp
qed

text \<open>
  C7 on an order of 210 to Beijing with the candidates \<open>WELCOME20\<close> and \<open>SAVE10\<close>, in that
  order. Without a coupon the total is 210; with \<open>WELCOME20\<close> it is 198 and with \<open>SAVE10\<close>
  197, the minimum. The loop measures the savings of \<open>SAVE10\<close> against the pricing it
  already keeps, finds 1, which is not above the 12 it has recorded, and returns
  \<open>WELCOME20\<close> with its total of 198. With the candidates \<open>SAVE10\<close> and \<open>WELCOME20\<close> on an
  order of 1000, the second candidate costs more than the first and the subtraction of
  the totals throws.
\<close>

theorem calculateOptimalPricing_misses_minimum:
  "calculateOrderPricing [line_item ''Pot'' 210 1] (address_in Beijing) None
     = Inr \<lparr>pricingSubtotal = cny 210, pricingDiscount = cny 0, pricingShippingFee = cny 0,
            pricingTax = cny 0, pricingTotal = cny 210\<rparr>
   \<and> calculateOrderPricing [line_item ''Pot'' 210 1] (address_in Beijing) (Some ''WELCOME20'')
       = Inr \<lparr>pricingSubtotal = cny 210, pricingDiscount = cny 20, pricingShippingFee = cny 8,
              pricingTax = cny 0, pricingTotal = cny 198\<rparr>
   \<and> calculateOrderPricing [line_item ''Pot'' 210 1] (address_in Beijing) (Some ''SAVE10'')
       = Inr \<lparr>pricingSubtotal = cny 210, pricingDiscount = cny 21, pricingShippingFee = cny 8,
              pricingTax = cny 0, pricingTotal = cny 197\<rparr>
   \<and> calculateOptimalPricing [line_item ''Pot'' 210 1] (address_in Beijing)
        [''WELCOME20'', ''SAVE10'']
       = Inr (\<lparr>pricingSubtotal = cny 210, pricingDiscount = cny 20, pricingShippingFee = cny 8,
               pricingTax = cny 0, pricingTotal = cny 198\<rparr>, Some ''WELCOME20'', cny 12)
   \<and> calculateOptimalPricing [line_item ''Pot'' 1000 1] (address_in Beijing)
        [''SAVE10'', ''WELCOME20''] = Inl ResultNegative"
proof -
  have a: "calculateOptimalPricing [line_item ''Pot'' 210 1] (address_in Beijing)
        [''WELCOME20'', ''SAVE10'']
       = Inr (\<lparr>pricingSubtotal = cny 210, pricingDiscount = cny 20, pricingShippingFee = cny 8,
               pricingTax = cny 0, pricingTotal = cny 198\<rparr>, Some ''WELCOME20'', cny 12)"
    by (simp add: calculateOptimalPricing_def price_without_coupon price_WELCOME20 price_SAVE10
        money_eval number_eval)
  have p0: "calculateOrderPricing [line_item ''Pot'' 1000 1] (address_in Beijing) None
     = Inr \<lparr>pricingSubtotal = cny 1000, pricingDiscount = cny 0, pricingShippingFee = cny 0,
            pricingTax = cny 0, pricingTotal = cny 1000\<rparr>"
    by (simp add: pricing_eval money_eval number_eval)
  have p1: "calculateOrderPricing [line_item ''Pot'' 1000 1] (address_in Beijing) (Some ''SAVE10'')
     = Inr \<lparr>pricingSubtotal = cny 1000, pricingDiscount = cny 50, pricingShippingFee = cny 0,
            pricingTax = cny 0, pricingTotal = cny 950\<rparr>"
    by (simp add: pricing_eval money_eval number_eval)
  have p2: "calculateOrderPricing [line_item ''Pot'' 1000 1] (address_in Beijing) (Some ''WELCOME20'')
     = Inr \<lparr>pricingSubtotal = cny 1000, pricingDiscount = cny 20, pricingShippingFee = cny 0,
            pricingTax = cny 0, pricingTotal = cny 980\<rparr>"
    by (simp add: pricing_eval money_eval number_eval)
  have b: "calculateOptimalPricing [line_item ''Pot'' 1000 1] (address_in Beijing)
        [''SAVE10'', ''WELCOME20''] = Inl ResultNegative"
    by (simp add: calculateOptimalPricing_def p0 p1 p2 money_eval number_eval)
  show ?thesis
    using a b price_without_coupon price_WELCOME20 price_SAVE10 by simp
qed

end
